theory Spec2Isabelle
  imports Complex_Main
begin

section \<open>Sri Lankan agriculture analysis engine: the rule-based calculators\<close>

text \<open>
  A shallow embedding of the deterministic calculators of the class
  \<open>SriLankanAgricultureAI\<close> in \<open>sri_lanka_ai_server.py\<close>. A Python method
  \<open>_name\<close> is the constant \<open>name\<close> here (an identifier cannot begin with an
  underscore). Python numbers are exact: a float is a real (rounding error of binary
  floating point, infinities and NaN are outside the model), and an int of the request is
  an integer. The numbers that the analyzers compute are written as reals.
\<close>

subsection \<open>Python values and string operations\<close>

text \<open>
  The result dictionaries of the analyzers are association lists in the order in which the
  source writes the keys; their values are JSON-like Python values.
\<close>

datatype pyval =
    PNone
  | PBool bool
  | PInt int
  | PNum real
  | PStr string
  | PList "pyval list"
  | PDict "(string \<times> pyval) list"

type_synonym pydict = "(string \<times> pyval) list"

text \<open>The exceptions that the modelled code can raise.\<close>

datatype py_error = OverflowError | ValueError | TypeError | IndexError | KeyError

text \<open>\<open>d.get(key, default)\<close> on an optional entry.\<close>

definition get_or :: "'a option \<Rightarrow> 'a \<Rightarrow> 'a" where
  "get_or v d = (case v of None \<Rightarrow> d | Some x \<Rightarrow> x)"

text \<open>
  Strings are sequences of 8-bit characters. \<open>str.lower()\<close> maps the letters A-Z to a-z and
  \<open>str.strip()\<close> removes leading and trailing white space; on ASCII text this is what
  Python does.
\<close>

definition lower_char :: "char \<Rightarrow> char" where
  "lower_char c =
     (case map_of (zip ''ABCDEFGHIJKLMNOPQRSTUVWXYZ'' ''abcdefghijklmnopqrstuvwxyz'') c of
        Some l \<Rightarrow> l
      | None \<Rightarrow> c)"

definition lower :: "string \<Rightarrow> string" where
  "lower s = map lower_char s"

definition isspace :: "char \<Rightarrow> bool" where
  "isspace c = (c \<in> set [CHR 0x09, CHR 0x0A, CHR 0x0B, CHR 0x0C, CHR 0x0D,
                         CHR 0x1C, CHR 0x1D, CHR 0x1E, CHR 0x1F, CHR '' ''])"

definition strip :: "string \<Rightarrow> string" where
  "strip s = rev (dropWhile isspace (rev (dropWhile isspace s)))"

fun startswith :: "string \<Rightarrow> string \<Rightarrow> bool" where
  "startswith s [] = True"
| "startswith [] (p # ps) = False"
| "startswith (c # cs) (p # ps) = (c = p \<and> startswith cs ps)"

text \<open>\<open>sub in s\<close> for strings: \<open>sub\<close> occurs in \<open>s\<close> as a contiguous substring.\<close>

fun contains :: "string \<Rightarrow> string \<Rightarrow> bool" where
  "contains [] sub = (sub = [])"
| "contains (c # cs) sub = (startswith (c # cs) sub \<or> contains cs sub)"

text \<open>Decimal digits and the number that a string of digits denotes.\<close>

definition digit_value :: "char \<Rightarrow> int option" where
  "digit_value c = map_of (zip ''0123456789'' [0, 1, 2, 3, 4, 5, 6, 7, 8, 9]) c"

definition digits_value :: "string \<Rightarrow> int" where
  "digits_value s = foldl (\<lambda>a c. 10 * a + get_or (digit_value c) 0) 0 s"

definition number_of_digits :: "string \<Rightarrow> int option" where
  "number_of_digits s =
     (if s \<noteq> [] \<and> list_all (\<lambda>c. digit_value c \<noteq> None) s then Some (digits_value s)
      else None)"

text \<open>
  \<open>round(x, n)\<close>: to the nearest multiple of \<open>10^-n\<close>, a tie going to the even neighbour.
\<close>

definition py_round :: "real \<Rightarrow> int" where
  "py_round x =
     (let f = \<lfloor>x\<rfloor>; r = x - of_int f
      in if r < 1 / 2 then f else if 1 / 2 < r then f + 1 else if even f then f else f + 1)"

definition round_to :: "real \<Rightarrow> nat \<Rightarrow> real" where
  "round_to x n = of_int (py_round (x * 10 ^ n)) / 10 ^ n"

text \<open>\<open>numpy.mean\<close> of a non-empty list.\<close>

definition mean :: "real list \<Rightarrow> real" where
  "mean xs = sum_list xs / real (length xs)"

subsection \<open>Reference data store\<close>

record climate_zone =
  rainfall_mm :: "real list"
  temperature_range :: "real list"
  humidity_range :: "real list"
  optimal_crops :: "string list"

text \<open>
  A variety entry of the table: each table entry carries some of these keys, and a key the
  entry does not carry is \<open>None\<close>.
\<close>

record variety =
  yield_per_acre :: "real option"
  nuts_per_tree :: "real option"
  growth_days :: "int option"
  growth_years :: "int option"
  water_requirement :: "string option"
  elevation :: "string option"
  lifespan :: "real option"

definition climate_zones :: "(string \<times> climate_zone) list" where
  "climate_zones =
    [(''Wet Zone'',
        \<lparr>rainfall_mm = [200, 300, 400, 350, 180, 120, 100, 120, 200, 350, 400, 250],
         temperature_range = [24, 30],
         humidity_range = [75, 85],
         optimal_crops = [''Rice'', ''Tea'', ''Rubber'', ''Coconut'', ''Vegetables'']\<rparr>),
     (''Dry Zone'',
        \<lparr>rainfall_mm = [50, 80, 120, 150, 80, 40, 30, 50, 120, 200, 180, 100],
         temperature_range = [26, 35],
         humidity_range = [60, 75],
         optimal_crops = [''Rice'', ''Maize'', ''Sesame'', ''Cotton'', ''Chili'']\<rparr>),
     (''Intermediate Zone'',
        \<lparr>rainfall_mm = [120, 180, 250, 220, 140, 80, 60, 80, 160, 280, 300, 180],
         temperature_range = [22, 28],
         humidity_range = [70, 80],
         optimal_crops = [''Rice'', ''Vegetables'', ''Fruits'', ''Spices'', ''Tea'']\<rparr>)]"

definition no_variety :: variety where
  "no_variety =
     \<lparr>yield_per_acre = None, nuts_per_tree = None, growth_days = None, growth_years = None,
      water_requirement = None, elevation = None, lifespan = None\<rparr>"

definition crop_varieties :: "(string \<times> (string \<times> variety) list) list" where
  "crop_varieties =
    [(''Rice'',
       [(''BG 352'', no_variety\<lparr>yield_per_acre := Some 4.5, growth_days := Some 105,
                                water_requirement := Some ''High''\<rparr>),
        (''AT 362'', no_variety\<lparr>yield_per_acre := Some 4.2, growth_days := Some 110,
                                water_requirement := Some ''Medium''\<rparr>),
        (''BG 300'', no_variety\<lparr>yield_per_acre := Some 4.0, growth_days := Some 95,
                                water_requirement := Some ''High''\<rparr>),
        (''H-4'', no_variety\<lparr>yield_per_acre := Some 3.8, growth_days := Some 120,
                             water_requirement := Some ''Medium''\<rparr>)]),
     (''Tea'',
       [(''TRI 2025'', no_variety\<lparr>yield_per_acre := Some 1500, growth_years := Some 3,
                                  elevation := Some ''High''\<rparr>),
        (''TRI 2043'', no_variety\<lparr>yield_per_acre := Some 1400, growth_years := Some 3,
                                  elevation := Some ''Medium''\<rparr>),
        (''TRI 3055'', no_variety\<lparr>yield_per_acre := Some 1600, growth_years := Some 4,
                                  elevation := Some ''High''\<rparr>)]),
     (''Coconut'',
       [(''Dwarf'', no_variety\<lparr>nuts_per_tree := Some 180, growth_years := Some 5,
                               lifespan := Some 80\<rparr>),
        (''Tall'', no_variety\<lparr>nuts_per_tree := Some 120, growth_years := Some 8,
                              lifespan := Some 100\<rparr>)])]"

subsection \<open>Request data\<close>

text \<open>
  The farm configuration of a request. Every key is optional; the text fields are strings
  and \<open>fieldSize\<close> (or \<open>field_size_acres\<close>) is any JSON value.
\<close>

record farm_config =
  location :: "string option"
  climateZone :: "string option"
  cropType :: "string option"
  seedVariety :: "string option"
  plantingDate :: "string option"
  fieldSize :: "pyval option"
  field_size_acres :: "pyval option"

record sensor_sample =
  temperature :: "real option"
  humidity :: "real option"
  soil_moisture :: "real option"
  timestamp :: real

text \<open>
  The sensor aggregate: the dictionary returned by \<open>_analyze_sensor_data\<close>, a key that is
  absent being \<open>None\<close>. (\<open>temperature_range\<close> of the aggregate is the field
  \<open>reading_range\<close>, the name being taken by the climate-zone table.)
\<close>

record sensor_analysis =
  status :: "string option"
  average_temperature :: "real option"
  average_humidity :: "real option"
  average_soil_moisture :: "real option"
  reading_range :: "(real \<times> real) option"
  data_points :: "int option"
  last_reading :: "real option"

subsection \<open>Sensor aggregator\<close>

definition analyze_sensor_data :: "sensor_sample list \<Rightarrow> sensor_analysis" where
  "analyze_sensor_data sensor_data =
     (if sensor_data = [] then
        \<lparr>status = Some ''No sensor data available'', average_temperature = None,
         average_humidity = None, average_soil_moisture = None, reading_range = None,
         data_points = None, last_reading = None\<rparr>
      else
        let temperatures = List.map_filter temperature sensor_data;
            humidities = List.map_filter humidity sensor_data;
            soil_moistures = List.map_filter soil_moisture sensor_data
        in \<lparr>status = None,
            average_temperature = Some (if temperatures \<noteq> [] then mean temperatures else 0.0),
            average_humidity = Some (if humidities \<noteq> [] then mean humidities else 0.0),
            average_soil_moisture =
              Some (if soil_moistures \<noteq> [] then mean soil_moistures else 0.0),
            reading_range =
              Some (case temperatures of
                      [] \<Rightarrow> (0.0, 0.0)
                    | t # ts \<Rightarrow> (fold min ts t, fold max ts t)),
            data_points = Some (int (length sensor_data)),
            last_reading =
              Some (case map timestamp sensor_data of
                      [] \<Rightarrow> 0
                    | t # ts \<Rightarrow> fold max ts t)\<rparr>)"

subsection \<open>Environmental factor calculators\<close>

definition calculate_temperature_factor :: "real \<Rightarrow> real" where
  "calculate_temperature_factor temp =
     (if 20 \<le> temp \<and> temp \<le> 30 then 1.0 + (0.1 * (30 - \<bar>temp - 25\<bar>) / 5)
      else if temp < 20 then 0.5 + (temp / 40)
      else max 0.5 (1.0 - ((temp - 30) / 20)))"

definition calculate_moisture_factor :: "real \<Rightarrow> real" where
  "calculate_moisture_factor moisture =
     (if 40 \<le> moisture \<and> moisture \<le> 70 then 1.2
      else if moisture < 40 then 0.5 + (moisture / 80)
      else max 0.7 (1.2 - ((moisture - 70) / 60)))"

definition calculate_climate_factor :: "farm_config \<Rightarrow> real" where
  "calculate_climate_factor farm_config =
     (let climate_zone = get_or (climateZone farm_config) '''';
          crop_type = get_or (cropType farm_config) '''';
          optimal_crops =
            (case map_of climate_zones climate_zone of
               None \<Rightarrow> []
             | Some zone_data \<Rightarrow> optimal_crops zone_data)
      in if crop_type \<in> set optimal_crops then 1.1 else 0.9)"

subsection \<open>Climate-zone analyzer\<close>

text \<open>
  The case-insensitive scan of a table: the first entry, in table order, whose key equals
  the given name after lower-casing both (the \<open>for ... if ... break\<close> loops of the source).
\<close>

definition find_ci :: "(string \<times> 'a) list \<Rightarrow> string \<Rightarrow> (string \<times> 'a) option" where
  "find_ci table name = List.find (\<lambda>entry. lower (fst entry) = lower name) table"

text \<open>
  The zone lookup of \<open>_analyze_climate_zone\<close>: the exact key first, then the
  case-insensitive scan, which also replaces \<open>climate_zone\<close> by the table's spelling. The
  result is the pair of \<open>climate_zone\<close> and \<open>zone_data\<close> after it, or \<open>None\<close> when
  \<open>zone_data\<close> is still unset.
\<close>

definition lookup_zone :: "string \<Rightarrow> (string \<times> climate_zone) option" where
  "lookup_zone climate_zone =
     (case map_of climate_zones climate_zone of
        Some zone_data \<Rightarrow> Some (climate_zone, zone_data)
      | None \<Rightarrow> find_ci climate_zones climate_zone)"

definition analyze_climate_zone :: "farm_config \<Rightarrow> sensor_analysis \<Rightarrow> pydict" where
  "analyze_climate_zone farm_config sensor_analysis =
     (let climate_zone = strip (get_or (climateZone farm_config) '''')
      in if climate_zone = [] then
           [(''status'', PStr ''Climate zone not specified''),
            (''message'',
               PStr ''Please set your climate zone in the farm configuration settings''),
            (''available_zones'', PList (map (PStr \<circ> fst) climate_zones)),
            (''required_fields'', PList [PStr ''climateZone''])]
         else
           (case lookup_zone climate_zone of
              None \<Rightarrow>
                [(''status'', PStr ''Unknown climate zone''),
                 (''message'',
                    PStr (''Climate zone '' @ [CHR 0x22] @ climate_zone @ [CHR 0x22]
                          @ '' not recognized. Please select from available options.'')),
                 (''available_zones'', PList (map (PStr \<circ> fst) climate_zones)),
                 (''current_value'', PStr climate_zone),
                 (''required_fields'', PList [PStr ''climateZone''])]
            | Some (climate_zone, zone_data) \<Rightarrow>
                let current_temp = get_or (average_temperature sensor_analysis) 0;
                    current_humidity = get_or (average_humidity sensor_analysis) 0;
                    temp_optimal =
                      (temperature_range zone_data ! 0 \<le> current_temp
                       \<and> current_temp \<le> temperature_range zone_data ! 1);
                    humidity_optimal =
                      (humidity_range zone_data ! 0 \<le> current_humidity
                       \<and> current_humidity \<le> humidity_range zone_data ! 1)
                in [(''climate_zone'', PStr climate_zone),
                    (''optimal_temperature_range'',
                       PList (map PNum (temperature_range zone_data))),
                    (''optimal_humidity_range'', PList (map PNum (humidity_range zone_data))),
                    (''current_temperature_status'',
                       PStr (if temp_optimal then ''Optimal'' else ''Outside range'')),
                    (''current_humidity_status'',
                       PStr (if humidity_optimal then ''Optimal'' else ''Outside range'')),
                    (''recommended_crops'', PList (map PStr (optimal_crops zone_data))),
                    (''monthly_rainfall_pattern'',
                       PList (map PNum (rainfall_mm zone_data)))]))"

subsection \<open>Yield predictor\<close>

definition get_yield_unit :: "string \<Rightarrow> string" where
  "get_yield_unit crop_type =
     get_or (map_of [(''Rice'', ''tons/acre''), (''Tea'', ''kg/acre''),
                     (''Coconut'', ''nuts/tree''), (''Rubber'', ''kg/acre'')] crop_type)
            ''kg/acre''"

definition categorize_yield :: "real \<Rightarrow> real \<Rightarrow> string" where
  "categorize_yield predicted base =
     (let ratio = (if base > 0 then predicted / base else 0)
      in if ratio \<ge> 1.1 then ''Excellent''
         else if ratio \<ge> 0.9 then ''Good''
         else if ratio \<ge> 0.7 then ''Average''
         else ''Below Average'')"

text \<open>Truth value of a Python value, as \<open>x or 0\<close> tests it.\<close>

fun truthy :: "pyval \<Rightarrow> bool" where
  "truthy PNone = False"
| "truthy (PBool b) = b"
| "truthy (PInt n) = (n \<noteq> 0)"
| "truthy (PNum x) = (x \<noteq> 0)"
| "truthy (PStr s) = (s \<noteq> [])"
| "truthy (PList xs) = (xs \<noteq> [])"
| "truthy (PDict d) = (d \<noteq> [])"

text \<open>
  \<open>float(v)\<close>. The builtin's reading of a string is the parameter \<open>pyfloat\<close>, with \<open>None\<close>
  for its \<open>ValueError\<close>; \<open>float\<close> of \<open>None\<close>, a list or a dictionary is a \<open>TypeError\<close>; and
  \<open>float\<close> of an int that is too large for a float (from \<open>2^1024 - 2^970\<close> on, in
  absolute value) is an \<open>OverflowError\<close>. A float being a real here, the strings that
  \<open>float\<close> reads as an infinity or as not-a-number have no value in this model.
\<close>

fun to_float :: "(string \<Rightarrow> real option) \<Rightarrow> pyval \<Rightarrow> py_error + real" where
  "to_float pyfloat (PInt n) =
     (if \<bar>n\<bar> \<ge> 2 ^ 1024 - 2 ^ 970 then Inl OverflowError else Inr (of_int n))"
| "to_float pyfloat (PNum x) = Inr x"
| "to_float pyfloat (PBool b) = Inr (if b then 1 else 0)"
| "to_float pyfloat (PStr s) = (case pyfloat s of None \<Rightarrow> Inl ValueError | Some x \<Rightarrow> Inr x)"
| "to_float pyfloat PNone = Inl TypeError"
| "to_float pyfloat (PList xs) = Inl TypeError"
| "to_float pyfloat (PDict d) = Inl TypeError"

text \<open>
  An instance of \<open>pyfloat\<close>: \<open>float\<close> on the plain decimal literals (white space around
  it, a sign, digits with at most one point and at least one digit). The exponents,
  underscores, \<open>inf\<close> and \<open>nan\<close> that \<open>float\<close> also reads are not in this instance.
\<close>

definition pyfloat_plain :: "string \<Rightarrow> real option" where
  "pyfloat_plain s =
     (let t = strip s;
          negative = (take 1 t = ''-'');
          body = (if take 1 t = ''-'' \<or> take 1 t = ''+'' then drop 1 t else t);
          int_text = takeWhile (\<lambda>c. c \<noteq> CHR ''.'') body;
          frac_text = drop (length int_text + 1) body
      in if (int_text \<noteq> [] \<or> frac_text \<noteq> [])
            \<and> list_all (\<lambda>c. digit_value c \<noteq> None) (int_text @ frac_text)
         then
           let magnitude =
                 of_int (digits_value int_text)
                 + of_int (digits_value frac_text) / 10 ^ length frac_text
           in Some (if negative then - magnitude else magnitude)
         else None)"

text \<open>
  The first lines of \<open>_predict_yield\<close>: the raw field-size value of the configuration, and
  the number read from it by \<open>float(field_size_str or 0)\<close> inside the \<open>try\<close>. The
  \<open>except (ValueError, TypeError)\<close> makes it \<open>0\<close>; any other exception of \<open>float\<close> leaves
  the method.
\<close>

definition field_size_str :: "farm_config \<Rightarrow> pyval" where
  "field_size_str farm_config =
     (case fieldSize farm_config of
        Some v \<Rightarrow> v
      | None \<Rightarrow> get_or (field_size_acres farm_config) (PStr ''0''))"

definition field_size :: "(string \<Rightarrow> real option) \<Rightarrow> farm_config \<Rightarrow> py_error + real" where
  "field_size pyfloat farm_config =
     (let v = field_size_str farm_config
      in case to_float pyfloat (if truthy v then v else PInt 0) of
           Inr x \<Rightarrow> Inr x
         | Inl e \<Rightarrow> if e = ValueError \<or> e = TypeError then Inr 0 else Inl e)"

text \<open>
  The crop lookup that \<open>_predict_yield\<close> and \<open>_forecast_harvest\<close> both run: the exact key
  first and, when that gives nothing, the case-insensitive scan, which also replaces
  \<open>crop_type\<close> by the table's spelling. The result is the pair of \<open>crop_type\<close> and
  \<open>crop_data\<close> after it; an unknown crop has the empty \<open>crop_data\<close>.
\<close>

definition lookup_crop :: "string \<Rightarrow> string \<times> (string \<times> variety) list" where
  "lookup_crop crop_type =
     (let crop_data = get_or (map_of crop_varieties crop_type) []
      in if crop_data = [] then
           (case find_ci crop_varieties crop_type of
              Some (available_crop, d) \<Rightarrow> (available_crop, d)
            | None \<Rightarrow> (crop_type, crop_data))
         else (crop_type, crop_data))"

text \<open>
  The base yield of \<open>_predict_yield\<close>: the variety by its exact key, else (for a non-empty
  variety name) by the case-insensitive scan; the yield of the variety found, and without
  one the mean yield over the varieties of the crop, a variety without \<open>yield_per_acre\<close>
  counting \<open>0\<close>.
\<close>

definition lookup_base_yield :: "(string \<times> variety) list \<Rightarrow> string \<Rightarrow> real" where
  "lookup_base_yield crop_data seed_variety =
     (let exact_variety = map_of crop_data seed_variety;
          variety_data =
            (if exact_variety = None \<and> seed_variety \<noteq> [] then
               map_option snd (find_ci crop_data seed_variety)
             else exact_variety)
      in case variety_data of
           Some v \<Rightarrow> get_or (yield_per_acre v) 0
         | None \<Rightarrow>
             if crop_data \<noteq> [] then
               mean (map (\<lambda>v. get_or (yield_per_acre v) 0) (map snd crop_data))
             else 0)"

text \<open>
  In \<open>predict_yield\<close> the number read from the field size is \<open>acres\<close> (the variable
  \<open>field_size\<close> of the source); an exception that the \<open>try\<close> does not catch is raised
  before any of the checks.
\<close>

definition predict_yield ::
  "(string \<Rightarrow> real option) \<Rightarrow> farm_config \<Rightarrow> sensor_analysis \<Rightarrow> py_error + pydict" where
  "predict_yield pyfloat farm_config sensor_analysis =
     (let crop_type = strip (get_or (cropType farm_config) '''');
          seed_variety = strip (get_or (seedVariety farm_config) '''')
      in case field_size pyfloat farm_config of
           Inl e \<Rightarrow> Inl e
         | Inr acres \<Rightarrow>
             Inr
              (if crop_type = [] then
                 [(''status'', PStr ''Crop type not specified''),
                  (''message'',
                     PStr ''Please set your crop type in the farm configuration settings''),
                  (''required_fields'', PList [PStr ''cropType''])]
               else if acres \<le> 0 then
                 [(''status'', PStr ''Field size not specified or invalid''),
                  (''message'',
                     PStr (''Please enter a valid field size (in acres) ''
                           @ ''in the farm configuration settings'')),
                  (''required_fields'', PList [PStr ''fieldSize'']),
                  (''current_value'', field_size_str farm_config)]
               else
                 let (crop_type, crop_data) = lookup_crop crop_type;
                     base_yield_per_acre = lookup_base_yield crop_data seed_variety
                 in if base_yield_per_acre = 0 then
                      [(''status'', PStr (''No yield data available for '' @ crop_type))]
                    else
                      let temp_factor =
                            calculate_temperature_factor
                              (get_or (average_temperature sensor_analysis) 25);
                          moisture_factor =
                            calculate_moisture_factor
                              (get_or (average_soil_moisture sensor_analysis) 50);
                          climate_factor = calculate_climate_factor farm_config;
                          total_factor =
                            (temp_factor + moisture_factor + climate_factor) / 3;
                          predicted_yield_per_acre = base_yield_per_acre * total_factor;
                          total_predicted_yield = predicted_yield_per_acre * acres;
                          confidence =
                            min 95
                              (max 60 (80 + (get_or (data_points sensor_analysis) 1 * 2)))
                      in [(''crop_type'', PStr crop_type),
                          (''seed_variety'', PStr seed_variety),
                          (''field_size_acres'', PNum acres),
                          (''base_yield_per_acre'', PNum (round_to base_yield_per_acre 2)),
                          (''predicted_yield_per_acre'',
                             PNum (round_to predicted_yield_per_acre 2)),
                          (''total_predicted_yield'',
                             PNum (round_to total_predicted_yield 2)),
                          (''yield_unit'', PStr (get_yield_unit crop_type)),
                          (''environmental_factors'',
                             PDict
                               [(''temperature_factor'', PNum (round_to temp_factor 3)),
                                (''moisture_factor'', PNum (round_to moisture_factor 3)),
                                (''climate_factor'', PNum (round_to climate_factor 3))]),
                          (''confidence_percentage'', PNum (of_int confidence)),
                          (''yield_category'',
                             PStr (categorize_yield predicted_yield_per_acre
                                     base_yield_per_acre))]))"

subsection \<open>Dates\<close>

text \<open>
  The part of Python's \<open>datetime\<close> that the harvest forecaster uses: naive date-times of the
  proleptic Gregorian calendar, their day ordinals (day 1 is 0001-01-01, the last day is
  9999-12-31), adding days, the whole days of a difference, and the two conversions for the
  format \<open>%Y-%m-%d\<close>.
\<close>

record datetime =
  year :: int
  month :: int
  day :: int
  hour :: int
  minute :: int
  second :: int
  microsecond :: int

definition is_leap :: "int \<Rightarrow> bool" where
  "is_leap y = (y mod 4 = 0 \<and> (y mod 100 \<noteq> 0 \<or> y mod 400 = 0))"

text \<open>The two month tables, for the months 1 to 12 of a year that is not a leap year.\<close>

definition DAYS_IN_MONTH :: "int \<Rightarrow> int" where
  "DAYS_IN_MONTH m = [31, 28, 31, 30, 31, 30, 31, 31, 30, 31, 30, 31] ! nat (m - 1)"

definition DAYS_BEFORE_MONTH :: "int \<Rightarrow> int" where
  "DAYS_BEFORE_MONTH m =
     [0, 31, 59, 90, 120, 151, 181, 212, 243, 273, 304, 334] ! nat (m - 1)"

definition days_in_month :: "int \<Rightarrow> int \<Rightarrow> int" where
  "days_in_month y m = (if m = 2 \<and> is_leap y then 29 else DAYS_IN_MONTH m)"

definition days_before_month :: "int \<Rightarrow> int \<Rightarrow> int" where
  "days_before_month y m = DAYS_BEFORE_MONTH m + (if m > 2 \<and> is_leap y then 1 else 0)"

definition days_before_year :: "int \<Rightarrow> int" where
  "days_before_year y' =
     (let y = y' - 1 in y * 365 + y div 4 - y div 100 + y div 400)"

definition ymd2ord :: "int \<Rightarrow> int \<Rightarrow> int \<Rightarrow> int" where
  "ymd2ord y m d = days_before_year y + days_before_month y m + d"

definition toordinal :: "datetime \<Rightarrow> int" where
  "toordinal dt = ymd2ord (year dt) (month dt) (day dt)"

definition ord2ymd :: "int \<Rightarrow> int \<times> int \<times> int" where
  "ord2ymd n0 =
     (let n = n0 - 1;
          n400 = n div 146097; n = n mod 146097;
          n100 = n div 36524; n = n mod 36524;
          n4 = n div 1461; n = n mod 1461;
          n1 = n div 365; n = n mod 365;
          y = n400 * 400 + 1 + n100 * 100 + n4 * 4 + n1
      in if n1 = 4 \<or> n100 = 4 then (y - 1, 12, 31)
         else
           let leapyear = (n1 = 3 \<and> (n4 \<noteq> 24 \<or> n100 = 3));
               m = (n + 50) div 32;
               preceding = DAYS_BEFORE_MONTH m + (if m > 2 \<and> leapyear then 1 else 0)
           in if preceding > n then
                let m = m - 1;
                    preceding =
                      preceding - (DAYS_IN_MONTH m + (if m = 2 \<and> leapyear then 1 else 0))
                in (y, m, n - preceding + 1)
              else (y, m, n - preceding + 1))"

text \<open>\<open>datetime(y, m, d)\<close>, midnight; \<open>None\<close> is the \<open>ValueError\<close> of an impossible date.\<close>

definition make_datetime :: "int \<Rightarrow> int \<Rightarrow> int \<Rightarrow> datetime option" where
  "make_datetime y m d =
     (if 1 \<le> y \<and> y \<le> 9999 \<and> 1 \<le> m \<and> m \<le> 12 \<and> 1 \<le> d \<and> d \<le> days_in_month y m
      then Some \<lparr>year = y, month = m, day = d, hour = 0, minute = 0, second = 0,
                 microsecond = 0\<rparr>
      else None)"

text \<open>\<open>dt + timedelta(days=n)\<close>: the time of day is kept; outside the range of dates it raises.\<close>

definition add_days :: "datetime \<Rightarrow> int \<Rightarrow> py_error + datetime" where
  "add_days dt n =
     (let ordinal = toordinal dt + n
      in if 1 \<le> ordinal \<and> ordinal \<le> 3652059 then
           (case ord2ymd ordinal of (y, m, d) \<Rightarrow> Inr (dt\<lparr>year := y, month := m, day := d\<rparr>))
         else Inl OverflowError)"

definition time_of_day :: "datetime \<Rightarrow> int" where
  "time_of_day dt =
     ((hour dt * 60 + minute dt) * 60 + second dt) * 1000000 + microsecond dt"

text \<open>\<open>(a - b).days\<close>: the difference in days, rounded down.\<close>

definition diff_days :: "datetime \<Rightarrow> datetime \<Rightarrow> int" where
  "diff_days a b =
     toordinal a - toordinal b + (time_of_day a - time_of_day b) div 86400000000"

text \<open>
  \<open>datetime.strptime(s, '%Y-%m-%d')\<close>, with \<open>None\<close> for its \<open>ValueError\<close>. The library reads
  four digits for the year, then the month as \<open>10\<close> to \<open>12\<close>, \<open>01\<close> to \<open>09\<close> or \<open>1\<close> to \<open>9\<close>,
  then the day as \<open>01\<close> to \<open>31\<close>, \<open>1\<close> to \<open>9\<close> or a blank and \<open>1\<close> to \<open>9\<close>, separated by
  hyphens, and nothing may follow; the date must exist.
\<close>

definition month_token :: "string \<Rightarrow> int option" where
  "month_token s =
     (case number_of_digits s of
        None \<Rightarrow> None
      | Some m \<Rightarrow> if length s \<le> 2 \<and> 1 \<le> m \<and> m \<le> 12 then Some m else None)"

definition day_token :: "string \<Rightarrow> int option" where
  "day_token s =
     (case number_of_digits (case s of [CHR '' '', c] \<Rightarrow> [c] | _ \<Rightarrow> s) of
        None \<Rightarrow> None
      | Some d \<Rightarrow> if length s \<le> 2 \<and> 1 \<le> d \<and> d \<le> 31 then Some d else None)"

definition strptime_ymd :: "string \<Rightarrow> datetime option" where
  "strptime_ymd s =
     (case number_of_digits (take 4 s) of
        None \<Rightarrow> None
      | Some y \<Rightarrow>
          if length (take 4 s) = 4 \<and> take 1 (drop 4 s) = ''-'' then
            let rest = drop 5 s;
                m_text = takeWhile (\<lambda>c. c \<noteq> CHR ''-'') rest;
                d_text = drop (length m_text + 1) rest
            in if length m_text < length rest then
                 (case (month_token m_text, day_token d_text) of
                    (Some m, Some d) \<Rightarrow> make_datetime y m d
                  | _ \<Rightarrow> None)
               else None
          else None)"

definition two_digits :: "int \<Rightarrow> string" where
  "two_digits n = [''0123456789'' ! nat (n div 10 mod 10), ''0123456789'' ! nat (n mod 10)]"

text \<open>
  \<open>dt.strftime('%Y-%m-%d')\<close>. The year is written without leading zeros, as the C library
  of Linux prints \<open>%Y\<close>; from the year 1000 on it has its four digits.
\<close>

definition strftime_ymd :: "datetime \<Rightarrow> string" where
  "strftime_ymd dt =
     dropWhile (\<lambda>c. c = CHR ''0'') (two_digits (year dt div 100) @ two_digits (year dt))
     @ ''-'' @ two_digits (month dt) @ ''-'' @ two_digits (day dt)"

subsection \<open>Harvest forecaster\<close>

definition get_growth_stage_name :: "real \<Rightarrow> string" where
  "get_growth_stage_name percentage =
     (if percentage < 25 then ''Seedling Stage''
      else if percentage < 50 then ''Vegetative Growth''
      else if percentage < 75 then ''Flowering Stage''
      else if percentage < 95 then ''Fruit Development''
      else ''Harvest Ready'')"

definition get_harvest_season :: "datetime \<Rightarrow> string" where
  "get_harvest_season harvest_date =
     (if month harvest_date \<in> set [3, 4, 5] then ''Yala Harvest Season''
      else if month harvest_date \<in> set [8, 9, 10] then ''Maha Harvest Season''
      else ''Off-season Harvest'')"

text \<open>
  The \<open>try\<close> block that both \<open>_forecast_harvest\<close> and \<open>_calculate_growth_stage\<close> run on a
  non-empty planting-date string: the season words first, then the strict date format. Its
  bare \<open>except\<close> turns the parser's exception into "no date", \<open>None\<close> here.
\<close>

definition resolve_planting_date :: "string \<Rightarrow> int \<Rightarrow> datetime option" where
  "resolve_planting_date planting_date current_year =
     (if contains (lower planting_date) ''yala'' then make_datetime current_year 5 15
      else if contains (lower planting_date) ''maha'' then make_datetime current_year 11 15
      else strptime_ymd planting_date)"

definition forecast_harvest :: "farm_config \<Rightarrow> datetime \<Rightarrow> py_error + pydict" where
  "forecast_harvest farm_config current_time =
     (let crop_type = strip (get_or (cropType farm_config) '''');
          planting_date = strip (get_or (plantingDate farm_config) '''')
      in if crop_type = [] then
           Inr [(''status'', PStr ''Crop type not specified''),
                (''message'',
                   PStr ''Please set your crop type in the farm configuration settings''),
                (''required_fields'', PList [PStr ''cropType''])]
         else if planting_date = [] then
           Inr [(''status'', PStr ''Planting date not specified''),
                (''message'',
                   PStr (''Please set your planting date in the farm configuration settings. ''
                         @ ''Use YYYY-MM-DD format or '' @ [CHR 0x22] @ ''Yala'' @ [CHR 0x22]
                         @ ''/'' @ [CHR 0x22] @ ''Maha'' @ [CHR 0x22] @ '' season'')),
                (''required_fields'', PList [PStr ''plantingDate''])]
         else
           (case resolve_planting_date planting_date (year current_time) of
              None \<Rightarrow> Inr [(''status'',
                             PStr ''Planting date not available or in unrecognized format'')]
            | Some planting_datetime \<Rightarrow>
                let (crop_type, crop_data) = lookup_crop crop_type
                in (case crop_data of
                      [] \<Rightarrow> Inr [(''status'',
                                    PStr (''No growth data available for '' @ crop_type))]
                    | (first_variety, growth_data) # other_varieties \<Rightarrow>
                        let growth_period =
                              (case growth_days growth_data of
                                 Some days \<Rightarrow> days
                               | None \<Rightarrow>
                                   (case growth_years growth_data of
                                      Some years \<Rightarrow> years * 365
                                    | None \<Rightarrow> 120))
                        in (case add_days planting_datetime growth_period of
                              Inl e \<Rightarrow> Inl e
                            | Inr harvest_date \<Rightarrow>
                                let days_to_harvest = diff_days harvest_date current_time;
                                    days_since_planting =
                                      diff_days current_time planting_datetime;
                                    growth_percentage =
                                      min 100
                                        (max 0
                                           ((of_int days_since_planting
                                             / of_int growth_period) * 100))
                                in Inr
                                  [(''crop_type'', PStr crop_type),
                                   (''planting_date'',
                                      PStr (strftime_ymd planting_datetime)),
                                   (''expected_harvest_date'',
                                      PStr (strftime_ymd harvest_date)),
                                   (''days_to_harvest'', PNum (of_int days_to_harvest)),
                                   (''growth_stage_percentage'',
                                      PNum (round_to growth_percentage 1)),
                                   (''growth_stage_name'',
                                      PStr (get_growth_stage_name growth_percentage)),
                                   (''harvest_season'',
                                      PStr (get_harvest_season harvest_date)),
                                   (''harvest_status'',
                                      PStr (if days_to_harvest \<le> 0 then ''Ready''
                                            else if days_to_harvest \<le> 30 then ''Growing''
                                            else ''Early stage''))]))))"

subsection \<open>Disease-risk analyzer\<close>

definition get_prevention_measures :: "string list \<Rightarrow> string \<Rightarrow> string list" where
  "get_prevention_measures risk_factors crop_type =
     concat (map (\<lambda>factor.
        (if contains (lower factor) ''fungal''
         then [''Apply organic fungicide (neem oil solution)''] else [])
        @ (if contains (lower factor) ''root rot''
           then [''Improve drainage and reduce irrigation frequency''] else [])
        @ (if contains (lower factor) ''drought''
           then [''Implement drip irrigation or mulching''] else [])
        @ (if contains (lower factor) ''heat stress''
           then [''Provide shade netting during hottest hours''] else []))
       risk_factors)"

definition get_monitoring_advice :: "int \<Rightarrow> string" where
  "get_monitoring_advice risk_level =
     (if risk_level < 30 then ''Regular weekly monitoring is sufficient''
      else if risk_level < 60 then ''Monitor twice weekly and watch for early symptoms''
      else ''Daily monitoring recommended - take immediate preventive action'')"

text \<open>
  The rule cascade of \<open>_assess_disease_risk\<close>: the list \<open>risk_factors\<close> and the sum
  \<open>risk_level\<close> as they stand just before the line \<open>risk_level = min(100, risk_level)\<close>.
  Each rule that fires appends its message and adds its weight.
\<close>

definition disease_risk_rules :: "sensor_analysis \<Rightarrow> farm_config \<Rightarrow> string list \<times> int" where
  "disease_risk_rules sensor_analysis farm_config =
     (let temp = get_or (average_temperature sensor_analysis) 25;
          humidity = get_or (average_humidity sensor_analysis) 70;
          soil_moisture = get_or (average_soil_moisture sensor_analysis) 50;
          crop_type = get_or (cropType farm_config) '''';
          fired =
            (if humidity > 80 \<and> 20 < temp \<and> temp < 30
             then [(''High fungal disease risk due to humid conditions'', 30)] else [])
            @ (if soil_moisture > 80
               then [(''Root rot risk due to waterlogged soil'', 25)] else [])
            @ (if soil_moisture < 20
               then [(''Plant stress due to drought conditions'', 20)] else [])
            @ (if temp > 35 then [(''Heat stress risk for crops'', 15)]
               else if temp < 15 then [(''Cold stress risk for tropical crops'', 10)]
               else [])
            @ (if crop_type = ''Rice'' then
                 (if humidity > 85 then [(''Blast disease risk in rice'', 20)] else [])
               else if crop_type = ''Tea'' then
                 (if temp > 32 then [(''Tea leaf scorch risk'', 15)] else [])
               else [])
      in (map fst fired, sum_list (map snd fired)))"

definition assess_disease_risk :: "sensor_analysis \<Rightarrow> farm_config \<Rightarrow> pydict" where
  "assess_disease_risk sensor_analysis farm_config =
     (let crop_type = get_or (cropType farm_config) '''';
          (risk_factors, raw_level) = disease_risk_rules sensor_analysis farm_config;
          risk_level = min 100 raw_level
      in [(''overall_risk_level'', PNum (of_int risk_level)),
          (''risk_category'',
             PStr (if risk_level < 30 then ''Low''
                   else if risk_level < 60 then ''Medium'' else ''High'')),
          (''risk_factors'', PList (map PStr risk_factors)),
          (''prevention_measures'',
             PList (map PStr (get_prevention_measures risk_factors crop_type))),
          (''monitoring_advice'', PStr (get_monitoring_advice risk_level))])"

subsection \<open>Crop suitability\<close>

text \<open>
  The optimal ranges of a crop: the lists under the keys \<open>temperature\<close>, \<open>humidity\<close> and
  \<open>soil_moisture\<close> of \<open>_get_crop_optimal_conditions\<close> (named \<open>opt_...\<close> here, the plain
  names being fields of a sensor sample).
\<close>

record optimal_conditions =
  opt_temperature :: "real list"
  opt_humidity :: "real list"
  opt_soil_moisture :: "real list"

definition get_crop_optimal_conditions :: "string \<Rightarrow> optimal_conditions" where
  "get_crop_optimal_conditions crop_type =
     (let conditions =
            [(''Rice'', \<lparr>opt_temperature = [22, 32], opt_humidity = [70, 85],
                         opt_soil_moisture = [60, 80]\<rparr>),
             (''Tea'', \<lparr>opt_temperature = [18, 25], opt_humidity = [75, 85],
                        opt_soil_moisture = [50, 70]\<rparr>),
             (''Coconut'', \<lparr>opt_temperature = [24, 32], opt_humidity = [70, 80],
                            opt_soil_moisture = [40, 60]\<rparr>),
             (''Vegetables'', \<lparr>opt_temperature = [20, 28], opt_humidity = [65, 80],
                               opt_soil_moisture = [50, 75]\<rparr>)]
      in get_or (map_of conditions crop_type)
           \<lparr>opt_temperature = [20, 28], opt_humidity = [65, 80],
            opt_soil_moisture = [50, 75]\<rparr>)"

definition assess_current_suitability :: "string \<Rightarrow> sensor_analysis \<Rightarrow> pydict" where
  "assess_current_suitability crop_type sensor_analysis =
     (let optimal = get_crop_optimal_conditions crop_type;
          temp = get_or (average_temperature sensor_analysis) 25;
          humidity = get_or (average_humidity sensor_analysis) 70;
          moisture = get_or (average_soil_moisture sensor_analysis) 50;
          temp_ok = (opt_temperature optimal ! 0 \<le> temp \<and> temp \<le> opt_temperature optimal ! 1);
          humidity_ok =
            (opt_humidity optimal ! 0 \<le> humidity \<and> humidity \<le> opt_humidity optimal ! 1);
          moisture_ok =
            (opt_soil_moisture optimal ! 0 \<le> moisture
             \<and> moisture \<le> opt_soil_moisture optimal ! 1);
          suitability_score =
            real (length (filter id [temp_ok, humidity_ok, moisture_ok])) / 3 * 100
      in [(''overall_suitability'', PNum (round_to suitability_score 1)),
          (''temperature_suitable'', PBool temp_ok),
          (''humidity_suitable'', PBool humidity_ok),
          (''soil_moisture_suitable'', PBool moisture_ok),
          (''status'',
             PStr (if suitability_score > 90 then ''Excellent''
                   else if suitability_score > 70 then ''Good''
                   else if suitability_score > 50 then ''Fair'' else ''Poor''))])"

subsection \<open>Crop-specific analyzer\<close>

definition calculate_growth_stage :: "farm_config \<Rightarrow> datetime \<Rightarrow> pydict" where
  "calculate_growth_stage farm_config now =
     (let planting_date = get_or (plantingDate farm_config) ''''
      in if planting_date = [] then [(''status'', PStr ''Planting date not provided'')]
         else
           (case resolve_planting_date planting_date (year now) of
              None \<Rightarrow> [(''status'', PStr ''Could not calculate growth stage'')]
            | Some plant_date \<Rightarrow>
                let days_since_planting = diff_days now plant_date
                in if days_since_planting < 0 then
                     [(''stage'', PStr ''Pre-planting''),
                      (''days'', PNum (of_int \<bar>days_since_planting\<bar>))]
                   else if days_since_planting < 30 then
                     [(''stage'', PStr ''Germination/Seedling''),
                      (''days'', PNum (of_int days_since_planting))]
                   else if days_since_planting < 60 then
                     [(''stage'', PStr ''Vegetative Growth''),
                      (''days'', PNum (of_int days_since_planting))]
                   else if days_since_planting < 90 then
                     [(''stage'', PStr ''Flowering/Reproductive''),
                      (''days'', PNum (of_int days_since_planting))]
                   else
                     [(''stage'', PStr ''Maturation/Harvest Ready''),
                      (''days'', PNum (of_int days_since_planting))]))"

text \<open>A variety entry as the dictionary it is in the table: the keys it carries.\<close>

definition variety_dict :: "variety \<Rightarrow> pydict" where
  "variety_dict v =
     (case yield_per_acre v of None \<Rightarrow> [] | Some x \<Rightarrow> [(''yield_per_acre'', PNum x)])
     @ (case nuts_per_tree v of None \<Rightarrow> [] | Some x \<Rightarrow> [(''nuts_per_tree'', PNum x)])
     @ (case growth_days v of None \<Rightarrow> [] | Some x \<Rightarrow> [(''growth_days'', PNum (of_int x))])
     @ (case growth_years v of None \<Rightarrow> [] | Some x \<Rightarrow> [(''growth_years'', PNum (of_int x))])
     @ (case water_requirement v of
          None \<Rightarrow> [] | Some x \<Rightarrow> [(''water_requirement'', PStr x)])
     @ (case elevation v of None \<Rightarrow> [] | Some x \<Rightarrow> [(''elevation'', PStr x)])
     @ (case lifespan v of None \<Rightarrow> [] | Some x \<Rightarrow> [(''lifespan'', PNum x)])"

definition analyze_crop_specific ::
  "farm_config \<Rightarrow> sensor_analysis \<Rightarrow> datetime \<Rightarrow> pydict" where
  "analyze_crop_specific farm_config sensor_analysis now =
     (let crop_type = strip (get_or (cropType farm_config) '''');
          seed_variety = strip (get_or (seedVariety farm_config) '''')
      in if crop_type = [] then [(''status'', PStr ''Crop type not specified'')]
         else
           let crop_info = get_or (map_of crop_varieties crop_type) [];
               variety_info =
                 (if seed_variety \<noteq> [] then
                    (case map_of crop_info seed_variety of
                       None \<Rightarrow> []
                     | Some v \<Rightarrow> variety_dict v)
                  else []);
               growth_stage = calculate_growth_stage farm_config now;
               optimal = get_crop_optimal_conditions crop_type
           in [(''crop_type'', PStr crop_type),
               (''seed_variety'', PStr seed_variety),
               (''variety_details'', PDict variety_info),
               (''growth_stage'', PDict growth_stage),
               (''optimal_conditions'',
                  PDict [(''temperature'', PList (map PNum (opt_temperature optimal))),
                         (''humidity'', PList (map PNum (opt_humidity optimal))),
                         (''soil_moisture'', PList (map PNum (opt_soil_moisture optimal)))]),
               (''current_suitability'',
                  PDict (assess_current_suitability crop_type sensor_analysis))])"

subsection \<open>Recommendations and alerts\<close>

text \<open>
  These two take result dictionaries of other analyzers and read them as Python does:
  \<open>v[1]\<close> and \<open>a > b\<close> raise on a value of the wrong kind.
\<close>

fun py_index1 :: "pyval \<Rightarrow> py_error + pyval" where
  "py_index1 (PList xs) = (if 1 < length xs then Inr (xs ! 1) else Inl IndexError)"
| "py_index1 (PStr s) = (if 1 < length s then Inr (PStr [s ! 1]) else Inl IndexError)"
| "py_index1 (PDict d) = Inl KeyError"
| "py_index1 v = Inl TypeError"

text \<open>The number that a Python value is in a comparison with a number, if it is one.\<close>

fun py_number :: "pyval \<Rightarrow> py_error + real" where
  "py_number (PNum x) = Inr x"
| "py_number (PInt n) = Inr (of_int n)"
| "py_number (PBool b) = Inr (if b then 1 else 0)"
| "py_number v = Inl TypeError"

definition generate_sri_lankan_recommendations ::
  "farm_config \<Rightarrow> sensor_analysis \<Rightarrow> pydict \<Rightarrow> pydict \<Rightarrow> py_error + pyval list" where
  "generate_sri_lankan_recommendations farm_config sensor_analysis climate_analysis
       monsoon_analysis =
     (let crop_type = get_or (cropType farm_config) '''';
          current_temp = get_or (average_temperature sensor_analysis) 0;
          soil_moisture = get_or (average_soil_moisture sensor_analysis) 0;
          temperature_advice =
            (if map_of climate_analysis ''current_temperature_status''
                  = Some (PStr ''Outside range'') then
               (case py_index1 (get_or (map_of climate_analysis ''optimal_temperature_range'')
                                  (PList [PNum 0, PNum 100])) of
                  Inl e \<Rightarrow> Inl e
                | Inr upper \<Rightarrow>
                    (case py_number upper of
                       Inl e \<Rightarrow> Inl e
                     | Inr u \<Rightarrow>
                         Inr (if current_temp > u then
                                [PDict [(''category'', PStr ''Temperature Management''),
                                        (''priority'', PStr ''High''),
                                        (''action'',
                                           PStr (''Implement shade netting or mulching ''
                                                 @ ''to reduce soil temperature'')),
                                        (''sri_lankan_context'',
                                           PStr (''Use coconut fronds or paddy straw ''
                                                 @ ''as natural mulch''))]]
                              else [])))
             else Inr [])
      in case temperature_advice of
           Inl e \<Rightarrow> Inl e
         | Inr temperature_items \<Rightarrow>
             Inr (temperature_items
                  @ (if truthy (get_or (map_of monsoon_analysis ''is_peak_rainfall_period'')
                                  PNone) then
                       [PDict [(''category'', PStr ''Monsoon Management''),
                               (''priority'', PStr ''High''),
                               (''action'',
                                  PStr ''Ensure proper drainage to prevent waterlogging''),
                               (''sri_lankan_context'',
                                  PStr (''Check '' @ [CHR 0x22] @ ''bethma'' @ [CHR 0x22]
                                        @ '' cultivation drainage systems''))]]
                     else [])
                  @ (if crop_type = ''Rice'' \<and> soil_moisture < 60 then
                       [PDict [(''category'', PStr ''Irrigation''),
                               (''priority'', PStr ''High''),
                               (''action'',
                                  PStr ''Increase irrigation frequency for rice fields''),
                               (''sri_lankan_context'',
                                  PStr (''Consider traditional '' @ [CHR 0x22] @ ''kanna''
                                        @ [CHR 0x22] @ '' (bund) irrigation methods''))]]
                     else [])
                  @ (if soil_moisture > 85 then
                       [PDict [(''category'', PStr ''Drainage''),
                               (''priority'', PStr ''Medium''),
                               (''action'',
                                  PStr ''Improve field drainage to prevent root diseases''),
                               (''sri_lankan_context'',
                                  PStr (''Create traditional '' @ [CHR 0x22] @ ''ela''
                                        @ [CHR 0x22] @ '' (drainage channels)''))]]
                     else [])
                  @ [PDict [(''category'', PStr ''Fertilization''),
                            (''priority'', PStr ''Medium''),
                            (''action'',
                               PStr ''Apply organic fertilizer based on crop stage''),
                            (''sri_lankan_context'',
                               PStr (''Use traditional compost with cattle manure ''
                                     @ ''and coconut coir''))]]))"

definition generate_alerts ::
  "sensor_analysis \<Rightarrow> pydict \<Rightarrow> pydict \<Rightarrow> py_error + pyval list" where
  "generate_alerts sensor_analysis disease_risk monsoon_analysis =
     (let temp = get_or (average_temperature sensor_analysis) 25
      in case py_number (get_or (map_of disease_risk ''overall_risk_level'') (PNum 0)) of
           Inl e \<Rightarrow> Inl e
         | Inr risk_level \<Rightarrow>
             Inr ((if temp > 35 then
                     [PDict [(''type'', PStr ''Warning''),
                             (''message'',
                                PStr (''Extreme heat detected - ''
                                      @ ''protect crops from heat stress'')),
                             (''action'', PStr ''Increase irrigation and provide shade'')]]
                   else [])
                  @ (if risk_level > 60 then
                       [PDict [(''type'', PStr ''Alert''),
                               (''message'', PStr ''High disease risk detected''),
                               (''action'',
                                  PStr ''Apply preventive treatments immediately'')]]
                     else [])
                  @ (if truthy (get_or (map_of monsoon_analysis ''is_peak_rainfall_period'')
                                  PNone) then
                       [PDict [(''type'', PStr ''Info''),
                               (''message'',
                                  PStr ''Peak monsoon season - high rainfall expected''),
                               (''action'', PStr ''Ensure drainage systems are clear'')]]
                     else [])))"

subsection \<open>Synthetic weather forecaster\<close>

definition calculate_rainfall_probability :: "datetime \<Rightarrow> string \<Rightarrow> real" where
  "calculate_rainfall_probability date climate_zone =
     (let monthly_rainfall =
            (case map_of climate_zones climate_zone of
               None \<Rightarrow> replicate 12 100
             | Some zone_data \<Rightarrow> rainfall_mm zone_data);
          rainfall = monthly_rainfall ! nat (month date - 1)
      in min 90 (max 10 (rainfall / 5)))"

definition determine_weather_conditions :: "real \<Rightarrow> real \<Rightarrow> real \<Rightarrow> string" where
  "determine_weather_conditions temp =
     (\<lambda>humidity rainfall_prob.
        if rainfall_prob > 70 then ''Rainy''
        else if rainfall_prob > 40 then ''Partly Cloudy''
        else if temp > 32 then ''Hot and Sunny''
        else if humidity > 85 then ''Humid''
        else ''Fair'')"

text \<open>
  One entry of \<open>forecast_days\<close>: the values under the keys \<open>date\<close>,
  \<open>temperature_celsius\<close>, \<open>humidity_percentage\<close>, \<open>rainfall_probability\<close> and
  \<open>conditions\<close>.
\<close>

type_synonym forecast_entry = "string \<times> real \<times> real \<times> real \<times> string"

definition get_weather_farming_advice :: "forecast_entry list \<Rightarrow> string list" where
  "get_weather_farming_advice forecast_days =
     (let high_rain_days = length (filter (\<lambda>(d, t, h, r, c). r > 70) forecast_days);
          hot_days = length (filter (\<lambda>(d, t, h, r, c). t > 32) forecast_days)
      in (if high_rain_days \<ge> 3 then [''Heavy rain expected - ensure proper drainage'']
          else [])
         @ (if hot_days \<ge> 3
            then [''Hot weather expected - increase irrigation frequency''] else []))"

text \<open>
  The loop over the seven days. The clock reading \<open>now\<close> and the random draws are
  parameters: \<open>noise i\<close> is the pair of \<open>temp_variation\<close> and \<open>humidity_variation\<close> that
  \<open>numpy.random.normal\<close> gives on day \<open>i\<close>.
\<close>

fun forecast_loop ::
  "datetime \<Rightarrow> (nat \<Rightarrow> real \<times> real) \<Rightarrow> string \<Rightarrow> real \<Rightarrow> real \<Rightarrow> nat list
   \<Rightarrow> py_error + forecast_entry list" where
  "forecast_loop now noise climate_zone current_temp current_humidity [] = Inr []"
| "forecast_loop now noise climate_zone current_temp current_humidity (i # days) =
     (case add_days now (int i) of
        Inl e \<Rightarrow> Inl e
      | Inr date \<Rightarrow>
          let forecasted_temp = current_temp + fst (noise i);
              forecasted_humidity = max 40 (min 95 (current_humidity + snd (noise i)));
              rainfall_prob = calculate_rainfall_probability date climate_zone;
              entry =
                (strftime_ymd date, round_to forecasted_temp 1,
                 round_to forecasted_humidity 1, round_to rainfall_prob 1,
                 determine_weather_conditions forecasted_temp forecasted_humidity
                   rainfall_prob)
          in (case forecast_loop now noise climate_zone current_temp current_humidity days of
                Inl e \<Rightarrow> Inl e
              | Inr entries \<Rightarrow> Inr (entry # entries)))"

definition forecast_weather ::
  "datetime \<Rightarrow> (nat \<Rightarrow> real \<times> real) \<Rightarrow> farm_config \<Rightarrow> sensor_analysis
   \<Rightarrow> py_error + pydict" where
  "forecast_weather now noise farm_config sensor_analysis =
     (let climate_zone = get_or (climateZone farm_config) '''';
          location = get_or (location farm_config) '''';
          current_temp = get_or (average_temperature sensor_analysis) 27;
          current_humidity = get_or (average_humidity sensor_analysis) 75
      in case forecast_loop now noise climate_zone current_temp current_humidity
                [0, 1, 2, 3, 4, 5, 6] of
           Inl e \<Rightarrow> Inl e
         | Inr forecast_days \<Rightarrow>
             Inr [(''location'', PStr location),
                  (''climate_zone'', PStr climate_zone),
                  (''forecast_days'',
                     PList (map (\<lambda>(d, t, h, r, c).
                              PDict [(''date'', PStr d),
                                     (''temperature_celsius'', PNum t),
                                     (''humidity_percentage'', PNum h),
                                     (''rainfall_probability'', PNum r),
                                     (''conditions'', PStr c)])
                            forecast_days)),
                  (''summary'', PStr (''7-day forecast for '' @ climate_zone @ '' zone'')),
                  (''farming_advice'',
                     PList (map PStr (get_weather_farming_advice forecast_days)))])"

section \<open>Properties\<close>

subsection \<open>Table lookups\<close>

lemma find_ci_in_table:
  "find_ci table name = Some e \<Longrightarrow> e \<in> set table \<and> lower (fst e) = lower name"
  by (auto simp add: find_ci_def find_Some_iff)

lemma lower_nonempty: "lower s = lower name \<Longrightarrow> name \<noteq> [] \<Longrightarrow> s \<noteq> []"
  by (cases s) (simp_all add: lower_def)

lemma strip_plain:
  "strip [] = []"
  "strip ''Wet Zone'' = ''Wet Zone''" "strip ''Dry Zone'' = ''Dry Zone''"
  "strip ''Intermediate Zone'' = ''Intermediate Zone''" "strip ''wet zone'' = ''wet zone''"
  "strip ''Mars'' = ''Mars''"
  "strip ''Coconut'' = ''Coconut''" "strip ''Rice'' = ''Rice''" "strip ''rice'' = ''rice''"
  "strip ''BG 352'' = ''BG 352''" "strip ''Dwarf'' = ''Dwarf''"
  by (simp_all add: strip_def isspace_def)

lemma pyfloat_plain_examples:
  "pyfloat_plain ''2'' = Some 2" "pyfloat_plain ''abc'' = None" "pyfloat_plain ''-3'' = Some (- 3)"
  by (simp_all add: pyfloat_plain_def strip_def isspace_def digit_value_def digits_value_def
        get_or_def)

lemma lookup_crop_Coconut: "lookup_crop ''Coconut'' = (''Coconut'', snd (crop_varieties ! 2))"
  by (simp add: lookup_crop_def crop_varieties_def get_or_def)

lemma lookup_crop_Rice: "lookup_crop ''Rice'' = (''Rice'', snd (crop_varieties ! 0))"
  by (simp add: lookup_crop_def crop_varieties_def get_or_def)

lemma lookup_crop_rice: "lookup_crop ''rice'' = (''Rice'', snd (crop_varieties ! 0))"
  by (simp add: lookup_crop_def crop_varieties_def get_or_def find_ci_def lower_def
        lower_char_def)

lemma variety_found_in_table:
  assumes "(if map_of cd sv = None \<and> sv \<noteq> [] then map_option snd (find_ci cd sv)
            else map_of cd sv) = Some v"
  shows "v \<in> snd ` set cd"
proof (cases "map_of cd sv")
  case None
  with assms obtain e where "find_ci cd sv = Some e" "v = snd e" by (auto split: if_splits)
  then show ?thesis using find_ci_in_table [of cd sv e] by auto
next
  case (Some a)
  with assms have "map_of cd sv = Some v" by simp
  then show ?thesis by (metis map_of_SomeD image_eqI snd_conv)
qed

lemma coconut_base_yield: "lookup_base_yield (snd (crop_varieties ! 2)) sv = 0"
proof -
  let ?cd = "snd (crop_varieties ! 2)"
  let ?vd = "(if map_of ?cd sv = None \<and> sv \<noteq> [] then map_option snd (find_ci ?cd sv)
              else map_of ?cd sv)"
  show ?thesis
  proof (cases ?vd)
    case None
    then show ?thesis
      by (simp add: lookup_base_yield_def Let_def)
         (simp add: crop_varieties_def no_variety_def mean_def get_or_def)
  next
    case (Some v)
    then have "v \<in> snd ` set ?cd" by (rule variety_found_in_table)
    then have "yield_per_acre v = None" by (auto simp add: crop_varieties_def no_variety_def)
    with Some show ?thesis by (simp add: lookup_base_yield_def Let_def get_or_def)
  qed
qed

lemma rice_base_yield:
  "lookup_base_yield (snd (crop_varieties ! 0)) sv \<in> {4.5, 4.2, 4.0, 3.8, 4.125}"
proof -
  let ?cd = "snd (crop_varieties ! 0)"
  let ?vd = "(if map_of ?cd sv = None \<and> sv \<noteq> [] then map_option snd (find_ci ?cd sv)
              else map_of ?cd sv)"
  show ?thesis
  proof (cases ?vd)
    case None
    then show ?thesis
      by (simp add: lookup_base_yield_def Let_def)
         (simp add: crop_varieties_def no_variety_def mean_def get_or_def)
  next
    case (Some v)
    then have "v \<in> snd ` set ?cd" by (rule variety_found_in_table)
    then have "yield_per_acre v \<in> {Some 4.5, Some 4.2, Some 4.0, Some 3.8}"
      by (auto simp add: crop_varieties_def no_variety_def)
    with Some show ?thesis by (auto simp add: lookup_base_yield_def Let_def get_or_def)
  qed
qed

lemma rice_base_yield_BG352: "lookup_base_yield (snd (crop_varieties ! 0)) ''BG 352'' = 4.5"
  by (simp add: lookup_base_yield_def crop_varieties_def no_variety_def get_or_def)

lemma rice_base_yield_nonzero: "lookup_base_yield (snd (crop_varieties ! 0)) sv \<noteq> 0"
  using rice_base_yield [of sv] by auto

lemma predict_yield_success_crop_type:
  assumes "strip (get_or (cropType cfg) []) = ct" "ct \<noteq> []"
    and "field_size pf cfg = Inr acres" "0 < acres"
    and "lookup_crop ct = (ct', cd)"
    and "lookup_base_yield cd (strip (get_or (seedVariety cfg) [])) = b" "b \<noteq> 0"
  shows "\<exists>r. predict_yield pf cfg sa = Inr r
           \<and> map_of r ''crop_type'' = Some (PStr ct')
           \<and> map_of r ''base_yield_per_acre'' = Some (PNum (round_to b 2))
           \<and> map_of r ''environmental_factors'' =
                Some (PDict
                  [(''temperature_factor'',
                      PNum (round_to (calculate_temperature_factor
                                        (get_or (average_temperature sa) 25)) 3)),
                   (''moisture_factor'',
                      PNum (round_to (calculate_moisture_factor
                                        (get_or (average_soil_moisture sa) 50)) 3)),
                   (''climate_factor'', PNum (round_to (calculate_climate_factor cfg) 3))])"
  using assms by (simp add: predict_yield_def Let_def)

lemma lower_zone_names:
  "lower ''Wet Zone'' = ''wet zone''" "lower ''Dry Zone'' = ''dry zone''"
  "lower ''Intermediate Zone'' = ''intermediate zone''"
  by (simp_all add: lower_def lower_char_def)

lemma strip_zone_names:
  "strip ''Wet Zone'' = ''Wet Zone''" "strip ''Dry Zone'' = ''Dry Zone''"
  "strip ''Intermediate Zone'' = ''Intermediate Zone''" "strip ''wet zone'' = ''wet zone''"
  by (simp_all add: strip_def isspace_def)

lemma zone_entries:
  "(name, zd) \<in> set climate_zones \<longleftrightarrow>
     (name = ''Wet Zone'' \<and> zd = snd (climate_zones ! 0))
   \<or> (name = ''Dry Zone'' \<and> zd = snd (climate_zones ! 1))
   \<or> (name = ''Intermediate Zone'' \<and> zd = snd (climate_zones ! 2))"
  by (auto simp add: climate_zones_def)

lemma lookup_zone_ci:
  assumes "(name, zd) \<in> set climate_zones" "lower z = lower name"
  shows "lookup_zone z = Some (name, zd)"
proof (cases "map_of climate_zones z")
  case (Some d)
  then have "(z, d) \<in> set climate_zones" by (rule map_of_SomeD)
  then have "z = name \<and> d = zd"
    using assms unfolding zone_entries by (elim disjE conjE) (simp_all add: lower_zone_names)
  with Some show ?thesis by (simp add: lookup_zone_def)
next
  case None
  have "find_ci climate_zones z = Some (name, zd)"
    using assms unfolding zone_entries
    by (elim disjE conjE) (simp_all add: find_ci_def climate_zones_def lower_zone_names)
  with None show ?thesis by (simp add: lookup_zone_def)
qed

lemma lookup_zone_none:
  assumes "\<forall>name \<in> fst ` set climate_zones. lower name \<noteq> lower z"
  shows "lookup_zone z = None"
proof -
  have "map_of climate_zones z = None"
  proof (rule ccontr)
    assume "map_of climate_zones z \<noteq> None"
    then obtain d where "map_of climate_zones z = Some d" by auto
    then have "z \<in> fst ` set climate_zones" by (metis map_of_SomeD image_eqI fst_conv)
    with assms show False by blast
  qed
  moreover have "find_ci climate_zones z = None"
    unfolding find_ci_def find_None_iff using assms by blast
  ultimately show ?thesis by (simp add: lookup_zone_def)
qed


lemma analyze_zone_canonical:
  assumes "(name, zd) \<in> set climate_zones"
    and "lower (strip (get_or (climateZone cfg) [])) = lower name"
  shows "analyze_climate_zone cfg sa = analyze_climate_zone (cfg\<lparr>climateZone := Some name\<rparr>) sa"
    and "map_of (analyze_climate_zone cfg sa) ''climate_zone'' = Some (PStr name)"
proof -
  have sn: "strip name = name" "name \<noteq> []"
    using assms(1) unfolding zone_entries by (auto simp add: strip_zone_names)
  have ne: "strip (get_or (climateZone cfg) []) \<noteq> []"
    using assms(2) sn(2) by (rule lower_nonempty)
  have l1: "lookup_zone (strip (get_or (climateZone cfg) [])) = Some (name, zd)"
    using assms by (rule lookup_zone_ci)
  have l2: "lookup_zone name = Some (name, zd)" using assms(1) by (rule lookup_zone_ci) simp
  show "analyze_climate_zone cfg sa = analyze_climate_zone (cfg\<lparr>climateZone := Some name\<rparr>) sa"
    using sn ne l1 l2 by (simp add: analyze_climate_zone_def Let_def get_or_def)
  show "map_of (analyze_climate_zone cfg sa) ''climate_zone'' = Some (PStr name)"
    using sn ne l1 l2 by (simp add: analyze_climate_zone_def Let_def get_or_def)
qed


lemma wet_zone_same:
  "analyze_climate_zone (cfg\<lparr>climateZone := Some ''wet zone''\<rparr>) sa
   = analyze_climate_zone (cfg\<lparr>climateZone := Some ''Wet Zone''\<rparr>) sa"
proof -
  have e: "(''Wet Zone'', snd (climate_zones ! 0)) \<in> set climate_zones"
    by (simp add: zone_entries)
  have l: "lower (strip (get_or (climateZone (cfg\<lparr>climateZone := Some ''wet zone''\<rparr>)) []))
           = lower ''Wet Zone''"
    by (simp add: get_or_def strip_zone_names lower_def lower_char_def)
  from analyze_zone_canonical(1) [OF e l] show ?thesis by simp
qed

lemma analyze_zone_empty:
  "strip (get_or (climateZone cfg) []) = [] \<Longrightarrow>
   analyze_climate_zone cfg sa =
     [(''status'', PStr ''Climate zone not specified''),
      (''message'', PStr ''Please set your climate zone in the farm configuration settings''),
      (''available_zones'', PList [PStr ''Wet Zone'', PStr ''Dry Zone'', PStr ''Intermediate Zone'']),
      (''required_fields'', PList [PStr ''climateZone''])]"
  by (simp add: analyze_climate_zone_def climate_zones_def)

lemma analyze_zone_unknown:
  assumes "strip (get_or (climateZone cfg) []) = z" "z \<noteq> []"
    and "\<forall>name \<in> fst ` set climate_zones. lower name \<noteq> lower z"
  shows "analyze_climate_zone cfg sa =
     [(''status'', PStr ''Unknown climate zone''),
      (''message'', PStr (''Climate zone '' @ [CHR 0x22] @ z @ [CHR 0x22]
                          @ '' not recognized. Please select from available options.'')),
      (''available_zones'', PList [PStr ''Wet Zone'', PStr ''Dry Zone'', PStr ''Intermediate Zone'']),
      (''current_value'', PStr z),
      (''required_fields'', PList [PStr ''climateZone''])]"
proof -
  have "lookup_zone z = None" using assms(3) by (rule lookup_zone_none)
  moreover have "map (PStr \<circ> fst) climate_zones
                 = [PStr ''Wet Zone'', PStr ''Dry Zone'', PStr ''Intermediate Zone'']"
    by (simp add: climate_zones_def)
  ultimately show ?thesis using assms(1,2) by (simp add: analyze_climate_zone_def)
qed

subsection \<open>Temperature factor\<close>

lemma temperature_factor_mid_band:
  assumes "20 \<le> t" "t \<le> 30"
  shows "calculate_temperature_factor t = 1.0 + 0.1 * (30 - \<bar>t - 25\<bar>) / 5"
    and "1.5 \<le> calculate_temperature_factor t"
    and "calculate_temperature_factor t \<le> calculate_temperature_factor 25"
  using assms by (simp_all add: calculate_temperature_factor_def)

text \<open>
  C1. In the band \<open>20 \<le> t \<le> 30\<close> the method computes
  \<open>1.0 + 0.1 * (30 - |t - 25|) / 5\<close>. At \<open>t = 25\<close> this is \<open>1.6\<close>: above \<open>1.1\<close>, the
  claimed maximum, and above \<open>1.5\<close>, the upper end of the range \<open>0.5 to 1.5\<close> that the
  method's own docstring gives.
\<close>

theorem temperature_factor_at_25:
  "calculate_temperature_factor 25 = 1.6
   \<and> \<not> calculate_temperature_factor 25 \<le> 1.1
   \<and> \<not> calculate_temperature_factor 25 \<le> 1.5"
  by (simp add: calculate_temperature_factor_def)

subsection \<open>Moisture factor\<close>

text \<open>
  C2. The moisture factor is exactly \<open>1.2\<close> on \<open>[40, 70]\<close>; above \<open>70\<close> it is
  monotonically non-increasing and never below \<open>0.7\<close>.
\<close>

theorem moisture_factor_plateau_and_tail:
  "(40 \<le> m \<and> m \<le> 70 \<longrightarrow> calculate_moisture_factor m = 1.2)
   \<and> (70 < m1 \<and> m1 < m2 \<longrightarrow> calculate_moisture_factor m2 \<le> calculate_moisture_factor m1)
   \<and> (70 < m \<longrightarrow> 0.7 \<le> calculate_moisture_factor m)"
  by (auto simp add: calculate_moisture_factor_def max_def)

theorem moisture_factor_plateau_and_tail_witness:
  "(40 \<le> (55::real) \<and> (55::real) \<le> 70) \<and> calculate_moisture_factor 55 = 1.2
   \<and> ((70::real) < 80 \<and> (80::real) < 90)
   \<and> calculate_moisture_factor 90 \<le> calculate_moisture_factor 80
   \<and> 0.7 \<le> calculate_moisture_factor 80"
  using moisture_factor_plateau_and_tail [of 55 80 90]
    moisture_factor_plateau_and_tail [of 80 80 90]
  by simp

subsection \<open>Disease-risk score\<close>

lemma raw_risk_bounds:
  "0 \<le> snd (disease_risk_rules sa cfg) \<and> snd (disease_risk_rules sa cfg) \<le> 75"
  by (simp add: disease_risk_rules_def Let_def)

lemma extreme_rules_exclusive:
  "\<not> (''Heat stress risk for crops'' \<in> set (fst (disease_risk_rules sa cfg))
      \<and> ''Cold stress risk for tropical crops'' \<in> set (fst (disease_risk_rules sa cfg)))"
  by (auto simp add: disease_risk_rules_def Let_def)

lemma assess_disease_risk_fields:
  "map_of (assess_disease_risk sa cfg) ''overall_risk_level''
     = Some (PNum (of_int (min 100 (snd (disease_risk_rules sa cfg)))))"
  "map_of (assess_disease_risk sa cfg) ''risk_category''
     = Some (PStr (if min 100 (snd (disease_risk_rules sa cfg)) < 30 then ''Low''
                   else if min 100 (snd (disease_risk_rules sa cfg)) < 60 then ''Medium''
                   else ''High''))"
  "map_of (assess_disease_risk sa cfg) ''risk_factors''
     = Some (PList (map PStr (fst (disease_risk_rules sa cfg))))"
  by (simp_all add: assess_disease_risk_def Let_def split_beta)

text \<open>
  C5, as stated, fails in one part: the sum of the weights of the rules that fire never
  exceeds \<open>100\<close>. The rules exclude one another (the fungal rule needs
  \<open>20 < temp < 30\<close>, the heat, cold and tea rules need a temperature outside that band,
  wet and dry soil exclude each other, the rice and the tea rule belong to different crops),
  and the largest sum that any input reaches is \<open>30 + 25 + 20 = 75\<close>.
\<close>

theorem disease_risk_raw_sum_at_most_75:
  "snd (disease_risk_rules
          \<lparr>status = None, average_temperature = Some 25, average_humidity = Some 90,
           average_soil_moisture = Some 85, reading_range = None, data_points = None,
           last_reading = None\<rparr>
          \<lparr>location = None, climateZone = None, cropType = Some ''Rice'', seedVariety = None,
           plantingDate = None, fieldSize = None, field_size_acres = None\<rparr>) = 75
   \<and> \<not> (\<exists>sa cfg. 100 < snd (disease_risk_rules sa cfg))"
proof
  show "snd (disease_risk_rules
          \<lparr>status = None, average_temperature = Some 25, average_humidity = Some 90,
           average_soil_moisture = Some 85, reading_range = None, data_points = None,
           last_reading = None\<rparr>
          \<lparr>location = None, climateZone = None, cropType = Some ''Rice'', seedVariety = None,
           plantingDate = None, fieldSize = None, field_size_acres = None\<rparr>) = 75"
    by (simp add: disease_risk_rules_def get_or_def)
  show "\<not> (\<exists>sa cfg. 100 < snd (disease_risk_rules sa cfg))"
  proof
    assume "\<exists>sa cfg. 100 < snd (disease_risk_rules sa cfg)"
    then obtain sa cfg where "100 < snd (disease_risk_rules sa cfg)" by blast
    with raw_risk_bounds [of sa cfg] show False by simp
  qed
qed

text \<open>
  C5, amended. For every sensor aggregate and farm configuration the overall risk level is
  the sum of the weights of the rules that fire, it lies between \<open>0\<close> and \<open>75\<close> (hence in
  \<open>[0, 100]\<close>, the cap at \<open>100\<close> never changing it), the category is Low below \<open>30\<close>,
  Medium below \<open>60\<close> and High otherwise, and the heat-stress and the cold-stress rule never
  fire together.
\<close>

theorem disease_risk_score_range:
  "\<exists>level.
     map_of (assess_disease_risk sa cfg) ''overall_risk_level'' = Some (PNum (of_int level))
     \<and> level = snd (disease_risk_rules sa cfg)
     \<and> 0 \<le> level \<and> level \<le> 75
     \<and> map_of (assess_disease_risk sa cfg) ''risk_category''
         = Some (PStr (if level < 30 then ''Low''
                       else if level < 60 then ''Medium'' else ''High''))
     \<and> map_of (assess_disease_risk sa cfg) ''risk_factors''
         = Some (PList (map PStr (fst (disease_risk_rules sa cfg))))
     \<and> \<not> (''Heat stress risk for crops'' \<in> set (fst (disease_risk_rules sa cfg))
          \<and> ''Cold stress risk for tropical crops'' \<in> set (fst (disease_risk_rules sa cfg)))"
proof -
  have b: "0 \<le> snd (disease_risk_rules sa cfg)" "snd (disease_risk_rules sa cfg) \<le> 75"
    using raw_risk_bounds [of sa cfg] by simp_all
  then have m: "min 100 (snd (disease_risk_rules sa cfg)) = snd (disease_risk_rules sa cfg)"
    by simp
  show ?thesis
    using b extreme_rules_exclusive [of sa cfg] assess_disease_risk_fields [of sa cfg]
    unfolding m by blast
qed

text \<open>The amended C5 at the input that reaches the largest sum.\<close>

theorem disease_risk_score_range_witness:
  "map_of (assess_disease_risk
          \<lparr>status = None, average_temperature = Some 25, average_humidity = Some 90,
           average_soil_moisture = Some 85, reading_range = None, data_points = None,
           last_reading = None\<rparr>
          \<lparr>location = None, climateZone = None, cropType = Some ''Rice'', seedVariety = None,
           plantingDate = None, fieldSize = None, field_size_acres = None\<rparr>) ''overall_risk_level''
    = Some (PNum 75)"
proof -
  let ?sa = "\<lparr>status = None, average_temperature = Some 25, average_humidity = Some 90,
           average_soil_moisture = Some 85, reading_range = None, data_points = None,
           last_reading = None\<rparr>"
  let ?cfg = "\<lparr>location = None, climateZone = None, cropType = Some ''Rice'', seedVariety = None,
           plantingDate = None, fieldSize = None, field_size_acres = None\<rparr>"
  have "snd (disease_risk_rules ?sa ?cfg) = 75"
    by (simp add: disease_risk_rules_def get_or_def)
  with disease_risk_score_range [of ?sa ?cfg] show ?thesis by auto
qed

subsection \<open>Yield predictor: validation\<close>

lemma field_size_of_string:
  "fieldSize cfg = Some (PStr s) \<Longrightarrow>
   field_size pf cfg = Inr (if s = [] then 0 else case pf s of None \<Rightarrow> 0 | Some x \<Rightarrow> x)"
  by (simp add: field_size_def field_size_str_def Let_def get_or_def split: option.splits)

lemma field_size_of_int:
  "fieldSize cfg = Some (PInt n) \<Longrightarrow>
   field_size pf cfg
     = (if \<bar>n\<bar> \<ge> 2 ^ 1024 - 2 ^ 970 then Inl OverflowError else Inr (of_int n))"
  by (simp add: field_size_def field_size_str_def Let_def)

lemma field_size_raises_only_overflow:
  assumes "field_size pf cfg = Inl e"
  shows "e = OverflowError
         \<and> (\<exists>n. field_size_str cfg = PInt n \<and> \<bar>n\<bar> \<ge> 2 ^ 1024 - 2 ^ 970)"
proof (cases "field_size_str cfg")
  case (PInt n)
  with assms show ?thesis
    by (cases "n = 0") (auto simp add: field_size_def Let_def split: if_splits)
qed (use assms in \<open>auto simp add: field_size_def Let_def split: if_splits option.splits\<close>)

text \<open>
  When \<open>float\<close> returns, or raises what the \<open>try\<close> catches, the two checks answer with
  their status results, the crop type first.
\<close>

lemma predict_yield_validation:
  assumes "field_size pf cfg = Inr acres"
  shows "strip (get_or (cropType cfg) []) = [] \<longrightarrow>
         predict_yield pf cfg sa =
           Inr [(''status'', PStr ''Crop type not specified''),
                (''message'',
                   PStr ''Please set your crop type in the farm configuration settings''),
                (''required_fields'', PList [PStr ''cropType''])]"
    and "strip (get_or (cropType cfg) []) \<noteq> [] \<and> acres \<le> 0 \<longrightarrow>
         predict_yield pf cfg sa =
           Inr [(''status'', PStr ''Field size not specified or invalid''),
                (''message'',
                   PStr (''Please enter a valid field size (in acres) ''
                         @ ''in the farm configuration settings'')),
                (''required_fields'', PList [PStr ''fieldSize'']),
                (''current_value'', field_size_str cfg)]"
  using assms by (simp_all add: predict_yield_def Let_def)

text \<open>
  C3. The predictor reads the field size with \<open>float\<close> before it looks at the crop type,
  and its \<open>try\<close> catches \<open>ValueError\<close> and \<open>TypeError\<close> only. A field size that is an
  integer too large for a float, here \<open>10^400\<close> and \<open>-10^400\<close>, makes \<open>float\<close> raise
  \<open>OverflowError\<close>, and the predictor raises it for every sensor aggregate: with an empty
  crop type, where the "Crop type not specified" result is due, and with the crop Rice and
  the negative field size, where the "Field size not specified or invalid" result is due.
\<close>

theorem predict_yield_raises_on_huge_field_size:
  "predict_yield pyfloat
     \<lparr>location = None, climateZone = None, cropType = Some '''', seedVariety = None,
      plantingDate = None, fieldSize = Some (PInt (10 ^ 400)), field_size_acres = None\<rparr>
     sensor_analysis = Inl OverflowError
   \<and> predict_yield pyfloat
     \<lparr>location = None, climateZone = None, cropType = Some ''Rice'', seedVariety = None,
      plantingDate = None, fieldSize = Some (PInt (- (10 ^ 400))), field_size_acres = None\<rparr>
     sensor_analysis = Inl OverflowError"
  by (simp add: predict_yield_def field_size_of_int)

text \<open>
  The same two configurations with the field size \<open>abc\<close>, which \<open>float\<close> rejects with
  \<open>ValueError\<close>, get the two status results.
\<close>

lemma predict_yield_rejects_text_field_size:
  "predict_yield pyfloat_plain
     \<lparr>location = None, climateZone = None, cropType = Some '''', seedVariety = None,
      plantingDate = None, fieldSize = Some (PStr ''abc''), field_size_acres = None\<rparr>
     sensor_analysis
   = Inr [(''status'', PStr ''Crop type not specified''),
          (''message'', PStr ''Please set your crop type in the farm configuration settings''),
          (''required_fields'', PList [PStr ''cropType''])]"
  "predict_yield pyfloat_plain
     \<lparr>location = None, climateZone = None, cropType = Some ''Rice'', seedVariety = None,
      plantingDate = None, fieldSize = Some (PStr ''abc''), field_size_acres = None\<rparr>
     sensor_analysis
   = Inr [(''status'', PStr ''Field size not specified or invalid''),
          (''message'',
             PStr (''Please enter a valid field size (in acres) ''
                   @ ''in the farm configuration settings'')),
          (''required_fields'', PList [PStr ''fieldSize'']),
          (''current_value'', PStr ''abc'')]"
proof -
  let ?A = "\<lparr>location = None, climateZone = None, cropType = Some '''', seedVariety = None,
      plantingDate = None, fieldSize = Some (PStr ''abc''), field_size_acres = None\<rparr>"
  let ?B = "\<lparr>location = None, climateZone = None, cropType = Some ''Rice'',
      seedVariety = None, plantingDate = None, fieldSize = Some (PStr ''abc''),
      field_size_acres = None\<rparr>"
  have fA: "field_size pyfloat_plain ?A = Inr 0" and fB: "field_size pyfloat_plain ?B = Inr 0"
    by (simp_all add: field_size_of_string pyfloat_plain_examples)
  show "predict_yield pyfloat_plain ?A sensor_analysis
   = Inr [(''status'', PStr ''Crop type not specified''),
          (''message'', PStr ''Please set your crop type in the farm configuration settings''),
          (''required_fields'', PList [PStr ''cropType''])]"
    using predict_yield_validation(1) [OF fA, of sensor_analysis]
    by (simp add: get_or_def strip_plain)
  show "predict_yield pyfloat_plain ?B sensor_analysis
   = Inr [(''status'', PStr ''Field size not specified or invalid''),
          (''message'',
             PStr (''Please enter a valid field size (in acres) ''
                   @ ''in the farm configuration settings'')),
          (''required_fields'', PList [PStr ''fieldSize'']),
          (''current_value'', PStr ''abc'')]"
    using predict_yield_validation(2) [OF fB, of sensor_analysis]
    by (simp add: get_or_def strip_plain field_size_str_def)
qed

subsection \<open>Yield predictor: Coconut\<close>

text \<open>
  C9. The Coconut varieties carry \<open>nuts_per_tree\<close> and no \<open>yield_per_acre\<close>: whichever seed
  variety is asked for, the base yield is \<open>0\<close>, through the variety found as well as through
  the mean over the varieties, and with a field size that is read as a positive number the
  predictor returns the "No yield data available for Coconut" result for every sensor
  aggregate.
\<close>

theorem coconut_has_no_yield_data:
  "fst (lookup_crop ''Coconut'') = ''Coconut''
   \<and> list_all (\<lambda>v. yield_per_acre v = None \<and> nuts_per_tree v \<noteq> None)
         (map snd (snd (lookup_crop ''Coconut'')))
   \<and> lookup_base_yield (snd (lookup_crop ''Coconut'')) seed_variety = 0
   \<and> (strip (get_or (cropType cfg) '''') = ''Coconut''
        \<and> field_size pyfloat cfg = Inr acres \<and> 0 < acres \<longrightarrow>
        predict_yield pyfloat cfg sa =
          Inr [(''status'', PStr ''No yield data available for Coconut'')])"
proof (intro impI conjI)
  show "fst (lookup_crop ''Coconut'') = ''Coconut''" by (simp add: lookup_crop_Coconut)
  show "list_all (\<lambda>v. yield_per_acre v = None \<and> nuts_per_tree v \<noteq> None)
         (map snd (snd (lookup_crop ''Coconut'')))"
    by (simp add: lookup_crop_Coconut) (simp add: crop_varieties_def no_variety_def)
  show "lookup_base_yield (snd (lookup_crop ''Coconut'')) seed_variety = 0"
    by (simp add: lookup_crop_Coconut coconut_base_yield)
  assume "strip (get_or (cropType cfg) '''') = ''Coconut''
        \<and> field_size pyfloat cfg = Inr acres \<and> 0 < acres"
  then show "predict_yield pyfloat cfg sa =
            Inr [(''status'', PStr ''No yield data available for Coconut'')]"
    by (simp add: predict_yield_def Let_def lookup_crop_Coconut coconut_base_yield)
qed

text \<open>C9 for the variety Dwarf on two acres and for an unknown variety name.\<close>

theorem coconut_has_no_yield_data_witness:
  "lookup_base_yield (snd (lookup_crop ''Coconut'')) ''Dwarf'' = 0
   \<and> lookup_base_yield (snd (lookup_crop ''Coconut'')) ''King'' = 0
   \<and> field_size pyfloat_plain
        \<lparr>location = None, climateZone = Some ''Wet Zone'', cropType = Some ''Coconut'',
         seedVariety = Some ''Dwarf'', plantingDate = None, fieldSize = Some (PStr ''2''),
         field_size_acres = None\<rparr> = Inr 2
   \<and> predict_yield pyfloat_plain
        \<lparr>location = None, climateZone = Some ''Wet Zone'', cropType = Some ''Coconut'',
         seedVariety = Some ''Dwarf'', plantingDate = None, fieldSize = Some (PStr ''2''),
         field_size_acres = None\<rparr>
        (analyze_sensor_data [])
      = Inr [(''status'', PStr ''No yield data available for Coconut'')]"
proof -
  let ?cfg = "\<lparr>location = None, climateZone = Some ''Wet Zone'', cropType = Some ''Coconut'',
         seedVariety = Some ''Dwarf'', plantingDate = None, fieldSize = Some (PStr ''2''),
         field_size_acres = None\<rparr>"
  have f: "field_size pyfloat_plain ?cfg = Inr 2"
    by (simp add: field_size_of_string pyfloat_plain_examples)
  show ?thesis
    using f
      coconut_has_no_yield_data [of "''Dwarf''" ?cfg pyfloat_plain 2 "analyze_sensor_data []"]
      coconut_has_no_yield_data [of "''King''" ?cfg pyfloat_plain 2 "analyze_sensor_data []"]
    by (simp add: get_or_def strip_plain)
qed

subsection \<open>Climate-match factor\<close>

lemma climate_factor_cases:
  "calculate_climate_factor cfg =
     (if \<exists>zone_data. map_of climate_zones (get_or (climateZone cfg) '''') = Some zone_data
            \<and> get_or (cropType cfg) '''' \<in> set (optimal_crops zone_data)
      then 1.1 else 0.9)"
  by (cases "map_of climate_zones (get_or (climateZone cfg) '''')")
     (simp_all add: calculate_climate_factor_def Let_def)

text \<open>
  C10. The climate-match factor compares the raw configuration strings with the table, exact
  in case and without \<open>strip\<close>: it is \<open>1.1\<close> exactly when the zone string is a key of the
  zone table and the crop string is in that zone's list of optimal crops, and \<open>0.9\<close>
  otherwise. So \<open>rice\<close> in \<open>Wet Zone\<close> gives \<open>0.9\<close>, in the same request in which the yield
  predictor reports the crop as \<open>Rice\<close> and uses its base yield, and so does any crop in
  \<open>wet zone\<close>.
\<close>

theorem climate_factor_is_case_sensitive:
  "calculate_climate_factor cfg =
     (if \<exists>zone_data. map_of climate_zones (get_or (climateZone cfg) '''') = Some zone_data
            \<and> get_or (cropType cfg) '''' \<in> set (optimal_crops zone_data)
      then 1.1 else 0.9)
   \<and> (get_or (climateZone cfg) '''' \<notin> fst ` set climate_zones \<longrightarrow>
        calculate_climate_factor cfg = 0.9)
   \<and> (get_or (cropType cfg) '''' \<notin> (\<Union>zone \<in> set climate_zones. set (optimal_crops (snd zone))) \<longrightarrow>
        calculate_climate_factor cfg = 0.9)
   \<and> (climateZone cfg = Some ''wet zone'' \<longrightarrow> calculate_climate_factor cfg = 0.9)
   \<and> (climateZone cfg = Some ''Wet Zone'' \<and> cropType cfg = Some ''Rice'' \<longrightarrow>
        calculate_climate_factor cfg = 1.1)
   \<and> (climateZone cfg = Some ''Wet Zone'' \<and> cropType cfg = Some ''rice''
        \<and> field_size pyfloat cfg = Inr acres \<and> 0 < acres \<longrightarrow>
        calculate_climate_factor cfg = 0.9
        \<and> (\<exists>r t m. predict_yield pyfloat cfg sa = Inr r
              \<and> map_of r ''crop_type'' = Some (PStr ''Rice'')
              \<and> map_of r ''base_yield_per_acre''
                  = Some (PNum (round_to (lookup_base_yield (snd (lookup_crop ''Rice''))
                                            (strip (get_or (seedVariety cfg) ''''))) 2))
              \<and> map_of r ''environmental_factors''
                  = Some (PDict [(''temperature_factor'', t), (''moisture_factor'', m),
                                 (''climate_factor'', PNum 0.9)])))"
proof (intro conjI impI)
  show "calculate_climate_factor cfg =
     (if \<exists>zone_data. map_of climate_zones (get_or (climateZone cfg) '''') = Some zone_data
            \<and> get_or (cropType cfg) '''' \<in> set (optimal_crops zone_data)
      then 1.1 else 0.9)"
    by (rule climate_factor_cases)
next
  assume "get_or (climateZone cfg) '''' \<notin> fst ` set climate_zones"
  then have "map_of climate_zones (get_or (climateZone cfg) '''') = None"
    by (simp add: map_of_eq_None_iff)
  then show "calculate_climate_factor cfg = 0.9" by (simp add: climate_factor_cases)
next
  assume a: "get_or (cropType cfg) '''' \<notin> (\<Union>zone \<in> set climate_zones. set (optimal_crops (snd zone)))"
  have "\<not> (\<exists>zone_data. map_of climate_zones (get_or (climateZone cfg) '''') = Some zone_data
            \<and> get_or (cropType cfg) '''' \<in> set (optimal_crops zone_data))"
  proof
    assume "\<exists>zone_data. map_of climate_zones (get_or (climateZone cfg) '''') = Some zone_data
            \<and> get_or (cropType cfg) '''' \<in> set (optimal_crops zone_data)"
    then obtain zd where zd: "map_of climate_zones (get_or (climateZone cfg) '''') = Some zd"
      "get_or (cropType cfg) '''' \<in> set (optimal_crops zd)" by blast
    from zd(1) have "(get_or (climateZone cfg) '''', zd) \<in> set climate_zones"
      by (rule map_of_SomeD)
    with zd(2) a show False by force
  qed
  then show "calculate_climate_factor cfg = 0.9" by (simp add: climate_factor_cases)
next
  assume "climateZone cfg = Some ''wet zone''"
  then show "calculate_climate_factor cfg = 0.9"
    by (simp add: calculate_climate_factor_def get_or_def climate_zones_def)
next
  assume "climateZone cfg = Some ''Wet Zone'' \<and> cropType cfg = Some ''Rice''"
  then show "calculate_climate_factor cfg = 1.1"
    by (simp add: calculate_climate_factor_def get_or_def climate_zones_def)
next
  assume a: "climateZone cfg = Some ''Wet Zone'' \<and> cropType cfg = Some ''rice''
        \<and> field_size pyfloat cfg = Inr acres \<and> 0 < acres"
  then show cf: "calculate_climate_factor cfg = 0.9"
    by (simp add: calculate_climate_factor_def get_or_def climate_zones_def)
  have r9: "round_to 0.9 3 = 0.9" by (simp add: round_to_def py_round_def)
  from a have ct: "strip (get_or (cropType cfg) []) = ''rice''" "''rice'' \<noteq> []"
    "field_size pyfloat cfg = Inr acres" "0 < acres"
    by (simp_all add: get_or_def strip_plain)
  from predict_yield_success_crop_type
         [OF ct lookup_crop_rice refl rice_base_yield_nonzero, of sa]
  obtain r where r: "predict_yield pyfloat cfg sa = Inr r"
    "map_of r ''crop_type'' = Some (PStr ''Rice'')"
    "map_of r ''base_yield_per_acre''
       = Some (PNum (round_to (lookup_base_yield (snd (crop_varieties ! 0))
                                 (strip (get_or (seedVariety cfg) []))) 2))"
    "map_of r ''environmental_factors'' =
       Some (PDict
         [(''temperature_factor'',
             PNum (round_to (calculate_temperature_factor
                               (get_or (average_temperature sa) 25)) 3)),
          (''moisture_factor'',
             PNum (round_to (calculate_moisture_factor
                               (get_or (average_soil_moisture sa) 50)) 3)),
          (''climate_factor'', PNum (round_to (calculate_climate_factor cfg) 3))])"
    by blast
  show "\<exists>r t m. predict_yield pyfloat cfg sa = Inr r
              \<and> map_of r ''crop_type'' = Some (PStr ''Rice'')
              \<and> map_of r ''base_yield_per_acre''
                  = Some (PNum (round_to (lookup_base_yield (snd (lookup_crop ''Rice''))
                                            (strip (get_or (seedVariety cfg) ''''))) 2))
              \<and> map_of r ''environmental_factors''
                  = Some (PDict [(''temperature_factor'', t), (''moisture_factor'', m),
                                 (''climate_factor'', PNum 0.9)])"
    using r cf r9 by (simp add: lookup_crop_Rice)
qed

text \<open>
  C10 for \<open>rice\<close> in \<open>Wet Zone\<close> on two acres, for \<open>Rice\<close> in \<open>wet zone\<close> and for \<open>Rice\<close> in
  \<open>Wet Zone\<close>.
\<close>

theorem climate_factor_is_case_sensitive_witness:
  "calculate_climate_factor
     \<lparr>location = None, climateZone = Some ''Wet Zone'', cropType = Some ''rice'',
      seedVariety = Some ''BG 352'', plantingDate = None, fieldSize = Some (PStr ''2''),
      field_size_acres = None\<rparr> = 0.9
   \<and> (\<exists>r. predict_yield pyfloat_plain
        \<lparr>location = None, climateZone = Some ''Wet Zone'', cropType = Some ''rice'',
         seedVariety = Some ''BG 352'', plantingDate = None, fieldSize = Some (PStr ''2''),
         field_size_acres = None\<rparr>
        (analyze_sensor_data []) = Inr r
      \<and> map_of r ''crop_type'' = Some (PStr ''Rice'')
      \<and> map_of r ''base_yield_per_acre'' = Some (PNum 4.5))
   \<and> calculate_climate_factor
     \<lparr>location = None, climateZone = Some ''wet zone'', cropType = Some ''Rice'',
      seedVariety = None, plantingDate = None, fieldSize = None, field_size_acres = None\<rparr>
     = 0.9
   \<and> calculate_climate_factor
     \<lparr>location = None, climateZone = Some ''Wet Zone'', cropType = Some ''Rice'',
      seedVariety = None, plantingDate = None, fieldSize = None, field_size_acres = None\<rparr>
     = 1.1"
proof -
  let ?A = "\<lparr>location = None, climateZone = Some ''Wet Zone'', cropType = Some ''rice'',
      seedVariety = Some ''BG 352'', plantingDate = None, fieldSize = Some (PStr ''2''),
      field_size_acres = None\<rparr>"
  let ?B = "\<lparr>location = None, climateZone = Some ''wet zone'', cropType = Some ''Rice'',
      seedVariety = None, plantingDate = None, fieldSize = None, field_size_acres = None\<rparr>"
  let ?C = "\<lparr>location = None, climateZone = Some ''Wet Zone'', cropType = Some ''Rice'',
      seedVariety = None, plantingDate = None, fieldSize = None, field_size_acres = None\<rparr>"
  have f: "field_size pyfloat_plain ?A = Inr 2"
    by (simp add: field_size_of_string pyfloat_plain_examples)
  have r: "round_to 4.5 2 = 4.5" by (simp add: round_to_def py_round_def)
  note tA = climate_factor_is_case_sensitive
      [where cfg = ?A and pyfloat = pyfloat_plain and acres = 2 and sa = "analyze_sensor_data []"]
  note tB = climate_factor_is_case_sensitive
      [where cfg = ?B and pyfloat = pyfloat_plain and acres = 2 and sa = "analyze_sensor_data []"]
  note tC = climate_factor_is_case_sensitive
      [where cfg = ?C and pyfloat = pyfloat_plain and acres = 2 and sa = "analyze_sensor_data []"]
  have hA: "climateZone ?A = Some ''Wet Zone'' \<and> cropType ?A = Some ''rice''
        \<and> field_size pyfloat_plain ?A = Inr 2 \<and> (0::real) < 2"
    using f by simp
  from tA [THEN conjunct2, THEN conjunct2, THEN conjunct2, THEN conjunct2, THEN conjunct2,
           rule_format, OF hA]
  have a: "calculate_climate_factor ?A = 0.9"
    and "\<exists>r t m. predict_yield pyfloat_plain ?A (analyze_sensor_data []) = Inr r
              \<and> map_of r ''crop_type'' = Some (PStr ''Rice'')
              \<and> map_of r ''base_yield_per_acre''
                  = Some (PNum (round_to (lookup_base_yield (snd (lookup_crop ''Rice''))
                                            (strip (get_or (seedVariety ?A) ''''))) 2))
              \<and> map_of r ''environmental_factors''
                  = Some (PDict [(''temperature_factor'', t), (''moisture_factor'', m),
                                 (''climate_factor'', PNum 0.9)])"
    by blast+
  then obtain r' where r': "predict_yield pyfloat_plain ?A (analyze_sensor_data []) = Inr r'"
    "map_of r' ''crop_type'' = Some (PStr ''Rice'')"
    "map_of r' ''base_yield_per_acre''
       = Some (PNum (round_to (lookup_base_yield (snd (lookup_crop ''Rice''))
                                 (strip (get_or (seedVariety ?A) ''''))) 2))"
    by blast
  have rr: "round_to (9 / 2) 2 = 9 / 2" by (simp add: round_to_def py_round_def)
  from r'(3) have b: "map_of r' ''base_yield_per_acre'' = Some (PNum 4.5)"
    by (simp add: get_or_def strip_plain lookup_crop_Rice rice_base_yield_BG352 rr)
  have c: "calculate_climate_factor ?B = 0.9"
    using tB [THEN conjunct2, THEN conjunct2, THEN conjunct2, THEN conjunct1] by simp
  have d: "calculate_climate_factor ?C = 1.1"
    using tC [THEN conjunct2, THEN conjunct2, THEN conjunct2, THEN conjunct2, THEN conjunct1]
    by simp
  from a r'(1,2) b c d show ?thesis by blast
qed

subsection \<open>Climate-zone analyzer\<close>

text \<open>
  C6. The zone lookup ignores case: \<open>wet zone\<close> and \<open>Wet Zone\<close> give the same result, the
  echoed label included, and in general a zone string that matches a table key up to case
  (after \<open>strip\<close>) gives the result of that key, with the key's spelling as
  \<open>climate_zone\<close>. An empty zone gives the "Climate zone not specified" result with the
  list of zones, and a non-empty zone that matches no key gives the "Unknown climate zone"
  result with the input and the list of zones.
\<close>

theorem climate_zone_lookup_ignores_case:
  "analyze_climate_zone (cfg\<lparr>climateZone := Some ''wet zone''\<rparr>) sa
     = analyze_climate_zone (cfg\<lparr>climateZone := Some ''Wet Zone''\<rparr>) sa
   \<and> ((name, zone_data) \<in> set climate_zones
        \<and> lower (strip (get_or (climateZone cfg) '''')) = lower name \<longrightarrow>
        analyze_climate_zone cfg sa = analyze_climate_zone (cfg\<lparr>climateZone := Some name\<rparr>) sa
        \<and> map_of (analyze_climate_zone cfg sa) ''climate_zone'' = Some (PStr name)
        \<and> map_of (analyze_climate_zone cfg sa) ''recommended_crops''
            = Some (PList (map PStr (optimal_crops zone_data))))
   \<and> (strip (get_or (climateZone cfg) '''') = [] \<longrightarrow>
        analyze_climate_zone cfg sa =
          [(''status'', PStr ''Climate zone not specified''),
           (''message'',
              PStr ''Please set your climate zone in the farm configuration settings''),
           (''available_zones'',
              PList [PStr ''Wet Zone'', PStr ''Dry Zone'', PStr ''Intermediate Zone'']),
           (''required_fields'', PList [PStr ''climateZone''])])
   \<and> (strip (get_or (climateZone cfg) '''') = z \<and> z \<noteq> []
        \<and> (\<forall>name \<in> fst ` set climate_zones. lower name \<noteq> lower z) \<longrightarrow>
        analyze_climate_zone cfg sa =
          [(''status'', PStr ''Unknown climate zone''),
           (''message'',
              PStr (''Climate zone '' @ [CHR 0x22] @ z @ [CHR 0x22]
                    @ '' not recognized. Please select from available options.'')),
           (''available_zones'',
              PList [PStr ''Wet Zone'', PStr ''Dry Zone'', PStr ''Intermediate Zone'']),
           (''current_value'', PStr z),
           (''required_fields'', PList [PStr ''climateZone''])])"
proof (intro conjI impI)
  show "analyze_climate_zone (cfg\<lparr>climateZone := Some ''wet zone''\<rparr>) sa
     = analyze_climate_zone (cfg\<lparr>climateZone := Some ''Wet Zone''\<rparr>) sa"
    by (rule wet_zone_same)
next
  assume a: "(name, zone_data) \<in> set climate_zones
        \<and> lower (strip (get_or (climateZone cfg) '''')) = lower name"
  then have e: "(name, zone_data) \<in> set climate_zones"
    and l: "lower (strip (get_or (climateZone cfg) [])) = lower name" by simp_all
  show "analyze_climate_zone cfg sa = analyze_climate_zone (cfg\<lparr>climateZone := Some name\<rparr>) sa"
    using e l by (rule analyze_zone_canonical(1))
  show "map_of (analyze_climate_zone cfg sa) ''climate_zone'' = Some (PStr name)"
    using e l by (rule analyze_zone_canonical(2))
  have sn: "name \<noteq> []" using e unfolding zone_entries by auto
  have ne: "strip (get_or (climateZone cfg) []) \<noteq> []" using l sn by (rule lower_nonempty)
  have l1: "lookup_zone (strip (get_or (climateZone cfg) [])) = Some (name, zone_data)"
    using e l by (rule lookup_zone_ci)
  show "map_of (analyze_climate_zone cfg sa) ''recommended_crops''
            = Some (PList (map PStr (optimal_crops zone_data)))"
    using ne l1 by (simp add: analyze_climate_zone_def Let_def)
next
  assume "strip (get_or (climateZone cfg) '''') = []"
  then show "analyze_climate_zone cfg sa =
          [(''status'', PStr ''Climate zone not specified''),
           (''message'',
              PStr ''Please set your climate zone in the farm configuration settings''),
           (''available_zones'',
              PList [PStr ''Wet Zone'', PStr ''Dry Zone'', PStr ''Intermediate Zone'']),
           (''required_fields'', PList [PStr ''climateZone''])]"
    by (rule analyze_zone_empty)
next
  assume "strip (get_or (climateZone cfg) '''') = z \<and> z \<noteq> []
        \<and> (\<forall>name \<in> fst ` set climate_zones. lower name \<noteq> lower z)"
  then show "analyze_climate_zone cfg sa =
          [(''status'', PStr ''Unknown climate zone''),
           (''message'',
              PStr (''Climate zone '' @ [CHR 0x22] @ z @ [CHR 0x22]
                    @ '' not recognized. Please select from available options.'')),
           (''available_zones'',
              PList [PStr ''Wet Zone'', PStr ''Dry Zone'', PStr ''Intermediate Zone'']),
           (''current_value'', PStr z),
           (''required_fields'', PList [PStr ''climateZone''])]"
    using analyze_zone_unknown [of cfg z sa] by blast
qed

text \<open>C6 at the zone strings \<open>wet zone\<close>, the empty string and \<open>Mars\<close>.\<close>

theorem climate_zone_lookup_ignores_case_witness:
  "analyze_climate_zone
     \<lparr>location = None, climateZone = Some ''wet zone'', cropType = None, seedVariety = None,
      plantingDate = None, fieldSize = None, field_size_acres = None\<rparr>
     (analyze_sensor_data [])
   = analyze_climate_zone
     \<lparr>location = None, climateZone = Some ''Wet Zone'', cropType = None, seedVariety = None,
      plantingDate = None, fieldSize = None, field_size_acres = None\<rparr>
     (analyze_sensor_data [])
   \<and> map_of (analyze_climate_zone
     \<lparr>location = None, climateZone = Some ''wet zone'', cropType = None, seedVariety = None,
      plantingDate = None, fieldSize = None, field_size_acres = None\<rparr>
     (analyze_sensor_data [])) ''climate_zone'' = Some (PStr ''Wet Zone'')
   \<and> analyze_climate_zone
     \<lparr>location = None, climateZone = Some '''', cropType = None, seedVariety = None,
      plantingDate = None, fieldSize = None, field_size_acres = None\<rparr>
     (analyze_sensor_data [])
   = [(''status'', PStr ''Climate zone not specified''),
      (''message'', PStr ''Please set your climate zone in the farm configuration settings''),
      (''available_zones'',
         PList [PStr ''Wet Zone'', PStr ''Dry Zone'', PStr ''Intermediate Zone'']),
      (''required_fields'', PList [PStr ''climateZone''])]
   \<and> analyze_climate_zone
     \<lparr>location = None, climateZone = Some ''Mars'', cropType = None, seedVariety = None,
      plantingDate = None, fieldSize = None, field_size_acres = None\<rparr>
     (analyze_sensor_data [])
   = [(''status'', PStr ''Unknown climate zone''),
      (''message'',
         PStr (''Climate zone '' @ [CHR 0x22] @ ''Mars'' @ [CHR 0x22]
               @ '' not recognized. Please select from available options.'')),
      (''available_zones'',
         PList [PStr ''Wet Zone'', PStr ''Dry Zone'', PStr ''Intermediate Zone'']),
      (''current_value'', PStr ''Mars''),
      (''required_fields'', PList [PStr ''climateZone''])]"
proof -
  let ?W = "\<lparr>location = None, climateZone = Some ''wet zone'', cropType = None,
      seedVariety = None, plantingDate = None, fieldSize = None, field_size_acres = None\<rparr>"
  let ?E = "\<lparr>location = None, climateZone = Some '''', cropType = None, seedVariety = None,
      plantingDate = None, fieldSize = None, field_size_acres = None\<rparr>"
  let ?M = "\<lparr>location = None, climateZone = Some ''Mars'', cropType = None,
      seedVariety = None, plantingDate = None, fieldSize = None, field_size_acres = None\<rparr>"
  have e: "(''Wet Zone'', snd (climate_zones ! 0)) \<in> set climate_zones"
    by (simp add: zone_entries)
  have lw: "lower ''wet zone'' = lower ''Wet Zone''" and lm: "lower ''Mars'' = ''mars''"
    by (simp_all add: lower_def lower_char_def)
  have m: "\<forall>name \<in> fst ` set climate_zones. lower name \<noteq> lower ''Mars''"
    by (simp add: climate_zones_def lower_zone_names lm)
  note tW = climate_zone_lookup_ignores_case
        [of ?W "analyze_sensor_data []" "''Wet Zone''" "snd (climate_zones ! 0)" "''wet zone''"]
  note tE = climate_zone_lookup_ignores_case
        [of ?E "analyze_sensor_data []" "''Wet Zone''" "snd (climate_zones ! 0)" "''''"]
  note tM = climate_zone_lookup_ignores_case
        [of ?M "analyze_sensor_data []" "''Wet Zone''" "snd (climate_zones ! 0)" "''Mars''"]
  have hW: "(''Wet Zone'', snd (climate_zones ! 0)) \<in> set climate_zones
        \<and> lower (strip (get_or (climateZone ?W) '''')) = lower ''Wet Zone''"
    using e lw by (simp add: get_or_def strip_plain)
  have hE: "strip (get_or (climateZone ?E) '''') = []"
    by (simp add: get_or_def strip_plain)
  have hM: "strip (get_or (climateZone ?M) '''') = ''Mars'' \<and> ''Mars'' \<noteq> []
        \<and> (\<forall>name \<in> fst ` set climate_zones. lower name \<noteq> lower ''Mars'')"
    using m by (simp add: get_or_def strip_plain)
  have c1: "analyze_climate_zone ?W (analyze_sensor_data [])
     = analyze_climate_zone
     \<lparr>location = None, climateZone = Some ''Wet Zone'', cropType = None, seedVariety = None,
      plantingDate = None, fieldSize = None, field_size_acres = None\<rparr>
     (analyze_sensor_data [])"
    using tW [THEN conjunct1] by simp
  have c2: "map_of (analyze_climate_zone ?W (analyze_sensor_data [])) ''climate_zone''
     = Some (PStr ''Wet Zone'')"
    using tW [THEN conjunct2, THEN conjunct1] hW by blast
  have c3: "analyze_climate_zone ?E (analyze_sensor_data [])
   = [(''status'', PStr ''Climate zone not specified''),
        (''message'', PStr ''Please set your climate zone in the farm configuration settings''),
        (''available_zones'',
           PList [PStr ''Wet Zone'', PStr ''Dry Zone'', PStr ''Intermediate Zone'']),
        (''required_fields'', PList [PStr ''climateZone''])]"
    using tE [THEN conjunct2, THEN conjunct2, THEN conjunct1] hE by blast
  have c4: "analyze_climate_zone ?M (analyze_sensor_data [])
   = [(''status'', PStr ''Unknown climate zone''),
      (''message'',
         PStr (''Climate zone '' @ [CHR 0x22] @ ''Mars'' @ [CHR 0x22]
               @ '' not recognized. Please select from available options.'')),
      (''available_zones'',
         PList [PStr ''Wet Zone'', PStr ''Dry Zone'', PStr ''Intermediate Zone'']),
      (''current_value'', PStr ''Mars''),
      (''required_fields'', PList [PStr ''climateZone''])]"
    using tM [THEN conjunct2, THEN conjunct2, THEN conjunct2] hM by blast
  from c1 c2 c3 c4 show ?thesis by blast
qed

subsection \<open>Scenario: rice in the wet zone\<close>

lemma scenario_aggregate:
  "analyze_sensor_data
     [\<lparr>temperature = Some 32, humidity = Some 88, soil_moisture = Some 75, timestamp = 1\<rparr>]
   = \<lparr>status = None, average_temperature = Some 32, average_humidity = Some 88,
      average_soil_moisture = Some 75, reading_range = Some (32, 32), data_points = Some 1,
      last_reading = Some 1\<rparr>"
  by (simp add: analyze_sensor_data_def List.map_filter_def mean_def)

text \<open>
  C8. One sample with temperature \<open>32\<close>, humidity \<open>88\<close> and soil moisture \<open>75\<close>, and the
  configuration Wet Zone, Rice, BG 352, field size \<open>2\<close>, planted 2024-05-15: the yield
  prediction has crop type \<open>Rice\<close> and base yield \<open>4.5\<close>; of the disease rules only the
  rice-blast rule fires, with weight \<open>20\<close>, and the fungal rule does not, the temperature
  \<open>32\<close> being outside \<open>20 < temp < 30\<close>.
\<close>

theorem scenario_rice_wet_zone:
  assumes "sensor_data =
      [\<lparr>temperature = Some 32, humidity = Some 88, soil_moisture = Some 75, timestamp = 1\<rparr>]"
    and "farm_config =
      \<lparr>location = None, climateZone = Some ''Wet Zone'', cropType = Some ''Rice'',
       seedVariety = Some ''BG 352'', plantingDate = Some ''2024-05-15'',
       fieldSize = Some (PStr ''2''), field_size_acres = None\<rparr>"
    and "pyfloat ''2'' = Some 2"
  shows "(\<exists>r. predict_yield pyfloat farm_config (analyze_sensor_data sensor_data) = Inr r
            \<and> map_of r ''crop_type'' = Some (PStr ''Rice'')
            \<and> map_of r ''base_yield_per_acre'' = Some (PNum 4.5))
       \<and> disease_risk_rules (analyze_sensor_data sensor_data) farm_config
           = ([''Blast disease risk in rice''], 20)
       \<and> ''High fungal disease risk due to humid conditions''
           \<notin> set (fst (disease_risk_rules (analyze_sensor_data sensor_data) farm_config))
       \<and> map_of (assess_disease_risk (analyze_sensor_data sensor_data) farm_config)
           ''risk_factors'' = Some (PList [PStr ''Blast disease risk in rice''])
       \<and> map_of (assess_disease_risk (analyze_sensor_data sensor_data) farm_config)
           ''overall_risk_level'' = Some (PNum 20)"
proof -
  have f: "field_size pyfloat farm_config = Inr 2"
    using assms(2,3) by (simp add: field_size_of_string)
  have ct: "strip (get_or (cropType farm_config) []) = ''Rice''" "''Rice'' \<noteq> []"
    "field_size pyfloat farm_config = Inr 2" "(0::real) < 2"
    using assms(2) f by (simp_all add: get_or_def strip_plain)
  have sv: "strip (get_or (seedVariety farm_config) []) = ''BG 352''"
    using assms(2) by (simp add: get_or_def strip_plain)
  have b: "lookup_base_yield (snd (crop_varieties ! 0))
             (strip (get_or (seedVariety farm_config) [])) = 9 / 2"
    unfolding sv using rice_base_yield_BG352 by simp
  have nz: "(9 / 2 :: real) \<noteq> 0" by simp
  have r: "round_to (9 / 2) 2 = 9 / 2" by (simp add: round_to_def py_round_def)
  from predict_yield_success_crop_type
         [OF ct lookup_crop_Rice b nz, of "analyze_sensor_data sensor_data"]
  have y: "\<exists>r. predict_yield pyfloat farm_config (analyze_sensor_data sensor_data) = Inr r
            \<and> map_of r ''crop_type'' = Some (PStr ''Rice'')
            \<and> map_of r ''base_yield_per_acre'' = Some (PNum 4.5)"
    using r by auto
  have rules: "disease_risk_rules (analyze_sensor_data sensor_data) farm_config
           = ([''Blast disease risk in rice''], 20)"
    unfolding assms(1) scenario_aggregate using assms(2)
    by (simp add: disease_risk_rules_def get_or_def)
  show ?thesis
    using y rules
      assess_disease_risk_fields [of "analyze_sensor_data sensor_data" farm_config]
    by simp
qed

text \<open>C8 with the plain decimal reading of the field size.\<close>

theorem scenario_rice_wet_zone_witness:
  "(\<exists>r. predict_yield pyfloat_plain
       \<lparr>location = None, climateZone = Some ''Wet Zone'', cropType = Some ''Rice'',
        seedVariety = Some ''BG 352'', plantingDate = Some ''2024-05-15'',
        fieldSize = Some (PStr ''2''), field_size_acres = None\<rparr>
       (analyze_sensor_data
          [\<lparr>temperature = Some 32, humidity = Some 88, soil_moisture = Some 75,
            timestamp = 1\<rparr>]) = Inr r
     \<and> map_of r ''base_yield_per_acre'' = Some (PNum 4.5))
   \<and> map_of (assess_disease_risk
       (analyze_sensor_data
          [\<lparr>temperature = Some 32, humidity = Some 88, soil_moisture = Some 75,
            timestamp = 1\<rparr>])
       \<lparr>location = None, climateZone = Some ''Wet Zone'', cropType = Some ''Rice'',
        seedVariety = Some ''BG 352'', plantingDate = Some ''2024-05-15'',
        fieldSize = Some (PStr ''2''), field_size_acres = None\<rparr>)
     ''overall_risk_level'' = Some (PNum 20)"
  using scenario_rice_wet_zone [where pyfloat = pyfloat_plain, OF refl refl pyfloat_plain_examples(1)]
  by blast

subsection \<open>Substrings and white space\<close>

lemma startswith_iff: "startswith s p \<longleftrightarrow> (\<exists>suf. s = p @ suf)"
  by (induction s p rule: startswith.induct) auto

lemma contains_iff: "contains s sub \<longleftrightarrow> (\<exists>pre suf. s = pre @ sub @ suf)"
proof (induction s)
  case Nil
  then show ?case by auto
next
  case (Cons c cs)
  show ?case
  proof
    assume "contains (c # cs) sub"
    then consider "startswith (c # cs) sub" | "contains cs sub" by auto
    then show "\<exists>pre suf. c # cs = pre @ sub @ suf"
    proof cases
      case 1
      then obtain suf where "c # cs = sub @ suf" by (auto simp add: startswith_iff)
      then have "c # cs = [] @ sub @ suf" by simp
      then show ?thesis by blast
    next
      case 2
      with Cons obtain pre suf where "cs = pre @ sub @ suf" by blast
      then have "c # cs = (c # pre) @ sub @ suf" by simp
      then show ?thesis by blast
    qed
  next
    assume "\<exists>pre suf. c # cs = pre @ sub @ suf"
    then obtain pre suf where e: "c # cs = pre @ sub @ suf" by blast
    show "contains (c # cs) sub"
    proof (cases pre)
      case Nil
      with e have "startswith (c # cs) sub" by (auto simp add: startswith_iff)
      then show ?thesis by simp
    next
      case (Cons a pre')
      with e have "cs = pre' @ sub @ suf" by simp
      with Cons.IH show ?thesis by auto
    qed
  qed
qed

lemma dropWhile_keeps_middle:
  assumes "mid \<noteq> []" "\<forall>x \<in> set mid. \<not> P x"
  shows "\<exists>pre'. dropWhile P (pre @ mid @ suf) = pre' @ mid @ suf"
proof (induction pre)
  case Nil
  from assms obtain c cs where "mid = c # cs" "\<not> P c" by (cases mid) auto
  then have "dropWhile P ([] @ mid @ suf) = [] @ mid @ suf" by simp
  then show ?case by blast
next
  case (Cons a pre)
  then obtain pre' where p: "dropWhile P (pre @ mid @ suf) = pre' @ mid @ suf" by blast
  show ?case
  proof (cases "P a")
    case True
    with p show ?thesis by auto
  next
    case False
    then have "dropWhile P ((a # pre) @ mid @ suf) = (a # pre) @ mid @ suf" by simp
    then show ?thesis by blast
  qed
qed

lemma strip_keeps_middle:
  assumes "mid \<noteq> []" "\<forall>x \<in> set mid. \<not> isspace x"
  shows "\<exists>pre' suf'. strip (pre @ mid @ suf) = pre' @ mid @ suf'"
proof -
  from dropWhile_keeps_middle [OF assms]
  obtain pre' where a: "dropWhile isspace (pre @ mid @ suf) = pre' @ mid @ suf" by blast
  have m: "rev mid \<noteq> []" "\<forall>x \<in> set (rev mid). \<not> isspace x" using assms by auto
  from dropWhile_keeps_middle [OF m, of "rev suf" "rev pre'"]
  obtain suf' where b: "dropWhile isspace (rev suf @ rev mid @ rev pre') = suf' @ rev mid @ rev pre'"
    by blast
  have "strip (pre @ mid @ suf) = rev (dropWhile isspace (rev (pre' @ mid @ suf)))"
    by (simp add: strip_def a)
  also have "\<dots> = rev (suf' @ rev mid @ rev pre')" using b by simp
  also have "\<dots> = pre' @ mid @ rev suf'" by simp
  finally show ?thesis by blast
qed

lemma strip_is_middle: "\<exists>pre suf. s = pre @ strip s @ suf"
proof -
  let ?t = "dropWhile isspace s"
  have "s = takeWhile isspace s @ ?t" by simp
  moreover have "rev ?t = takeWhile isspace (rev ?t) @ dropWhile isspace (rev ?t)" by simp
  then have "?t = rev (dropWhile isspace (rev ?t)) @ rev (takeWhile isspace (rev ?t))"
    by (metis rev_append rev_rev_ident)
  ultimately have "s = takeWhile isspace s @ strip s @ rev (takeWhile isspace (rev ?t))"
    by (simp add: strip_def)
  then show ?thesis by blast
qed

lemma isspace_cases:
  "isspace c \<longleftrightarrow> c = CHR 0x09 \<or> c = CHR 0x0A \<or> c = CHR 0x0B \<or> c = CHR 0x0C \<or> c = CHR 0x0D
     \<or> c = CHR 0x1C \<or> c = CHR 0x1D \<or> c = CHR 0x1E \<or> c = CHR 0x1F \<or> c = CHR '' ''"
  by (simp add: isspace_def)

lemma lower_char_spaces:
  "lower_char (CHR 0x09) = CHR 0x09" "lower_char (CHR 0x0A) = CHR 0x0A"
  "lower_char (CHR 0x0B) = CHR 0x0B" "lower_char (CHR 0x0C) = CHR 0x0C"
  "lower_char (CHR 0x0D) = CHR 0x0D" "lower_char (CHR 0x1C) = CHR 0x1C"
  "lower_char (CHR 0x1D) = CHR 0x1D" "lower_char (CHR 0x1E) = CHR 0x1E"
  "lower_char (CHR 0x1F) = CHR 0x1F" "lower_char (CHR '' '') = CHR '' ''"
  by (simp_all add: lower_char_def)

lemma isspace_lower_char: "isspace c \<Longrightarrow> lower_char c = c"
  unfolding isspace_cases by (elim disjE) (simp_all only: lower_char_spaces)

lemma lower_append: "lower (a @ b) = lower a @ lower b"
  by (simp add: lower_def)
lemma contains_lower_unstrip:
  assumes "contains (lower (strip s)) w"
  shows "contains (lower s) w"
proof -
  from assms obtain pre suf where e: "lower (strip s) = pre @ w @ suf"
    unfolding contains_iff by blast
  obtain a b where s: "s = a @ strip s @ b" using strip_is_middle [of s] by blast
  have "lower s = lower (a @ strip s @ b)" using s by (rule arg_cong)
  also have "\<dots> = lower a @ lower (strip s) @ lower b" by (simp only: lower_append)
  also have "\<dots> = (lower a @ pre) @ w @ (suf @ lower b)" by (simp only: e append_assoc)
  finally show "contains (lower s) w" unfolding contains_iff by blast
qed

lemma lower_substring_split:
  assumes "contains (lower s) w"
  shows "\<exists>s1 s2 s3. s = s1 @ s2 @ s3 \<and> lower s2 = w"
proof -
  from assms obtain pre suf where "lower s = pre @ (w @ suf)" unfolding contains_iff by blast
  then have "map lower_char s = pre @ (w @ suf)" unfolding lower_def .
  then have "\<exists>us vs. s = us @ vs \<and> pre = map lower_char us \<and> w @ suf = map lower_char vs"
    by (rule iffD1 [OF map_eq_append_conv])
  then obtain s1 vs where s1: "s = s1 @ vs" and v: "w @ suf = map lower_char vs" by blast
  from v have "\<exists>us' vs'. vs = us' @ vs' \<and> w = map lower_char us' \<and> suf = map lower_char vs'"
    by (rule iffD1 [OF append_eq_map_conv])
  then obtain s2 s3 where s23: "vs = s2 @ s3" and m': "w = map lower_char s2" by blast
  have m: "lower s2 = w" unfolding lower_def using m' by (rule sym)
  from s1 s23 have "s = s1 @ s2 @ s3" by (simp only:)
  with m show ?thesis by blast
qed

lemma contains_lower_strip_middle:
  assumes "lower s2 = w" "w \<noteq> []" "\<forall>x \<in> set w. \<not> isspace x"
  shows "contains (lower (strip (s1 @ s2 @ s3))) w"
proof -
  have ne: "s2 \<noteq> []"
  proof
    assume "s2 = []"
    then have "lower s2 = []" by (simp add: lower_def)
    with assms(1,2) show False by simp
  qed
  have ns: "\<forall>x \<in> set s2. \<not> isspace x"
  proof
    fix x assume x: "x \<in> set s2"
    show "\<not> isspace x"
    proof
      assume sp: "isspace x"
      then have "lower_char x = x" by (rule isspace_lower_char)
      moreover have "lower_char x \<in> set (lower s2)" using x unfolding lower_def by (simp only: set_map imageI)
      ultimately have "x \<in> set w" unfolding assms(1) by (simp only:)
      with assms(3) sp show False by blast
    qed
  qed
  from strip_keeps_middle [OF ne ns, of s1 s3]
  obtain p' q' where "strip (s1 @ s2 @ s3) = p' @ s2 @ q'" by blast
  then have "lower (strip (s1 @ s2 @ s3)) = lower p' @ w @ lower q'" by (simp only: lower_append assms(1))
  then show ?thesis unfolding contains_iff by blast
qed

lemma season_words_no_space:
  "\<forall>x \<in> set ''yala''. \<not> isspace x" "\<forall>x \<in> set ''maha''. \<not> isspace x"
  by (simp_all add: isspace_cases)

lemma contains_lower_strip:
  assumes "w \<noteq> []" "\<forall>x \<in> set w. \<not> isspace x"
  shows "contains (lower (strip s)) w \<longleftrightarrow> contains (lower s) w"
proof
  assume "contains (lower (strip s)) w"
  then show "contains (lower s) w" by (rule contains_lower_unstrip)
next
  assume "contains (lower s) w"
  then obtain s1 s2 s3 where s: "s = s1 @ s2 @ s3" and m: "lower s2 = w"
    using lower_substring_split by blast
  from contains_lower_strip_middle [OF m assms, of s1 s3]
  show "contains (lower (strip s)) w" unfolding s .
qed

lemma season_words_strip:
  "contains (lower (strip s)) ''yala'' \<longleftrightarrow> contains (lower s) ''yala''"
  "contains (lower (strip s)) ''maha'' \<longleftrightarrow> contains (lower s) ''maha''"
proof -
  have y: "''yala'' \<noteq> []" and m: "''maha'' \<noteq> []" by simp_all
  show "contains (lower (strip s)) ''yala'' \<longleftrightarrow> contains (lower s) ''yala''"
    using y season_words_no_space(1) by (rule contains_lower_strip)
  show "contains (lower (strip s)) ''maha'' \<longleftrightarrow> contains (lower s) ''maha''"
    using m season_words_no_space(2) by (rule contains_lower_strip)
qed

subsection \<open>Harvest forecaster: the planting date\<close>

lemma make_datetime_season:
  assumes "1 \<le> y" "y \<le> 9999"
  shows "make_datetime y 5 15
           = Some \<lparr>year = y, month = 5, day = 15, hour = 0, minute = 0, second = 0,
                    microsecond = 0\<rparr>"
    and "make_datetime y 11 15
           = Some \<lparr>year = y, month = 11, day = 15, hour = 0, minute = 0, second = 0,
                    microsecond = 0\<rparr>"
  using assms by (simp_all add: make_datetime_def days_in_month_def DAYS_IN_MONTH_def)

lemma resolve_planting_date_blank: "resolve_planting_date [] y = None"
  by (simp add: resolve_planting_date_def lower_def strptime_ymd_def number_of_digits_def)

lemma forecast_harvest_unparseable:
  assumes "strip (get_or (cropType cfg) []) \<noteq> []"
    and "strip (get_or (plantingDate cfg) []) \<noteq> []"
    and "resolve_planting_date (strip (get_or (plantingDate cfg) [])) (year now) = None"
  shows "forecast_harvest cfg now
           = Inr [(''status'', PStr ''Planting date not available or in unrecognized format'')]"
  using assms by (simp add: forecast_harvest_def Let_def)

text \<open>
  The forecaster once the planting date is resolved to \<open>d\<close>: what it returns for a crop
  without table entry, when the harvest date is out of range, and otherwise.
\<close>

lemma forecast_harvest_no_growth_data:
  assumes "strip (get_or (cropType cfg) []) = crop" "crop \<noteq> []"
    and "resolve_planting_date (strip (get_or (plantingDate cfg) [])) (year now) = Some d"
    and "lookup_crop crop = (crop_name, [])"
  shows "forecast_harvest cfg now
           = Inr [(''status'', PStr (''No growth data available for '' @ crop_name))]"
proof -
  have p: "strip (get_or (plantingDate cfg) []) \<noteq> []"
    using assms(3) resolve_planting_date_blank by force
  show ?thesis
    using assms p by (simp add: forecast_harvest_def Let_def)
qed

lemma forecast_harvest_date_out_of_range:
  assumes "strip (get_or (cropType cfg) []) = crop" "crop \<noteq> []"
    and "resolve_planting_date (strip (get_or (plantingDate cfg) [])) (year now) = Some d"
    and "lookup_crop crop = (crop_name, (n, g) # rest)"
    and "add_days d (case growth_days g of
                       Some days \<Rightarrow> days
                     | None \<Rightarrow> (case growth_years g of
                                  Some years \<Rightarrow> years * 365
                                | None \<Rightarrow> 120)) = Inl e"
  shows "forecast_harvest cfg now = Inl e"
proof -
  have p: "strip (get_or (plantingDate cfg) []) \<noteq> []"
    using assms(3) resolve_planting_date_blank by force
  show ?thesis
    using assms p by (simp add: forecast_harvest_def Let_def)
qed

lemma forecast_harvest_resolved:
  assumes "strip (get_or (cropType cfg) []) = crop" "crop \<noteq> []"
    and "resolve_planting_date (strip (get_or (plantingDate cfg) [])) (year now) = Some d"
    and "lookup_crop crop = (crop_name, (n, g) # rest)"
    and "add_days d (case growth_days g of
                       Some days \<Rightarrow> days
                     | None \<Rightarrow> (case growth_years g of
                                  Some years \<Rightarrow> years * 365
                                | None \<Rightarrow> 120)) = Inr harvest_date"
  shows "forecast_harvest cfg now
           = Inr [(''crop_type'', PStr crop_name),
                  (''planting_date'', PStr (strftime_ymd d)),
                  (''expected_harvest_date'', PStr (strftime_ymd harvest_date)),
                  (''days_to_harvest'', PNum (of_int (diff_days harvest_date now))),
                  (''growth_stage_percentage'',
                     PNum (round_to
                             (min 100
                                (max 0
                                   ((of_int (diff_days now d)
                                     / of_int (case growth_days g of
                                                 Some days \<Rightarrow> days
                                               | None \<Rightarrow> (case growth_years g of
                                                            Some years \<Rightarrow> years * 365
                                                          | None \<Rightarrow> 120))) * 100))) 1)),
                  (''growth_stage_name'',
                     PStr (get_growth_stage_name
                             (min 100
                                (max 0
                                   ((of_int (diff_days now d)
                                     / of_int (case growth_days g of
                                                 Some days \<Rightarrow> days
                                               | None \<Rightarrow> (case growth_years g of
                                                            Some years \<Rightarrow> years * 365
                                                          | None \<Rightarrow> 120))) * 100))))),
                  (''harvest_season'', PStr (get_harvest_season harvest_date)),
                  (''harvest_status'',
                     PStr (if diff_days harvest_date now \<le> 0 then ''Ready''
                           else if diff_days harvest_date now \<le> 30 then ''Growing''
                           else ''Early stage''))]"
proof -
  have p: "strip (get_or (plantingDate cfg) []) \<noteq> []"
    using assms(3) resolve_planting_date_blank by force
  show ?thesis
    using assms p by (simp add: forecast_harvest_def Let_def)
qed

lemma forecast_harvest_not_unparseable:
  assumes "resolve_planting_date (strip (get_or (plantingDate cfg) [])) (year now) = Some d"
  shows "forecast_harvest cfg now
           \<noteq> Inr [(''status'',
                      PStr ''Planting date not available or in unrecognized format'')]"
proof (cases "strip (get_or (cropType cfg) []) = []")
  case True
  then show ?thesis by (simp add: forecast_harvest_def Let_def)
next
  case False
  obtain crop_name crop_data
    where l: "lookup_crop (strip (get_or (cropType cfg) [])) = (crop_name, crop_data)"
    by (cases "lookup_crop (strip (get_or (cropType cfg) []))")
  show ?thesis
  proof (cases crop_data)
    case Nil
    with l forecast_harvest_no_growth_data [OF refl False assms] show ?thesis by simp
  next
    case (Cons entry rest)
    obtain n g where e: "entry = (n, g)" by (cases entry)
    have l': "lookup_crop (strip (get_or (cropType cfg) [])) = (crop_name, (n, g) # rest)"
      using l Cons e by simp
    let ?gp = "(case growth_days g of Some days \<Rightarrow> days
               | None \<Rightarrow> (case growth_years g of Some years \<Rightarrow> years * 365 | None \<Rightarrow> 120))"
    show ?thesis
    proof (cases "add_days d ?gp")
      case (Inl err)
      with forecast_harvest_date_out_of_range [OF refl False assms l'] show ?thesis by simp
    next
      case (Inr h)
      with forecast_harvest_resolved [OF refl False assms l'] show ?thesis by simp
    qed
  qed
qed

lemma forecast_harvest_blank_planting_date:
  assumes "strip (get_or (cropType cfg) []) \<noteq> []"
    and "strip (get_or (plantingDate cfg) []) = []"
  shows "forecast_harvest cfg now
           = Inr [(''status'', PStr ''Planting date not specified''),
                  (''message'',
                     PStr (''Please set your planting date in the farm configuration settings. ''
                           @ ''Use YYYY-MM-DD format or '' @ [CHR 0x22] @ ''Yala'' @ [CHR 0x22]
                           @ ''/'' @ [CHR 0x22] @ ''Maha'' @ [CHR 0x22] @ '' season'')),
                  (''required_fields'', PList [PStr ''plantingDate''])]"
  using assms by (simp add: forecast_harvest_def Let_def)

text \<open>
  What \<open>strptime\<close> reads from ten characters \<open>YYYY-MM-DD\<close>, all of \<open>Y\<close>, \<open>M\<close> and \<open>D\<close> digits:
  the date of these numbers if there is one.
\<close>

lemma digit_value_cases:
  assumes "digit_value c = Some a"
  shows "(c, a) \<in> {(CHR ''0'', 0), (CHR ''1'', 1), (CHR ''2'', 2), (CHR ''3'', 3),
                   (CHR ''4'', 4), (CHR ''5'', 5), (CHR ''6'', 6), (CHR ''7'', 7),
                   (CHR ''8'', 8), (CHR ''9'', 9)}"
  using assms by (simp add: digit_value_def split: if_splits)

lemma digit_value_range:
  assumes "digit_value c = Some a"
  shows "0 \<le> a" "a \<le> 9" "c \<noteq> CHR ''-''" "c \<noteq> CHR '' ''"
  using digit_value_cases [OF assms] by auto

lemma days_in_month_le_31:
  assumes "1 \<le> m" "m \<le> 12"
  shows "days_in_month y m \<le> 31"
proof -
  from assms have "m \<in> {1, 2, 3, 4, 5, 6, 7, 8, 9, 10, 11, 12}" by (simp; presburger)
  then show ?thesis
    by (auto simp add: days_in_month_def DAYS_IN_MONTH_def)
qed

lemma number_of_two_digits:
  assumes "digit_value c1 = Some a1" "digit_value c2 = Some a2"
  shows "number_of_digits [c1, c2] = Some (10 * a1 + a2)"
  using assms by (simp add: number_of_digits_def digits_value_def get_or_def)

lemma number_of_four_digits:
  assumes "digit_value c1 = Some a1" "digit_value c2 = Some a2"
    and "digit_value c3 = Some a3" "digit_value c4 = Some a4"
  shows "number_of_digits [c1, c2, c3, c4] = Some (1000 * a1 + 100 * a2 + 10 * a3 + a4)"
  using assms by (simp add: number_of_digits_def digits_value_def get_or_def)

lemma month_token_two_digits:
  assumes "digit_value c1 = Some a1" "digit_value c2 = Some a2"
  shows "month_token [c1, c2]
           = (if 1 \<le> 10 * a1 + a2 \<and> 10 * a1 + a2 \<le> 12 then Some (10 * a1 + a2) else None)"
  by (simp add: month_token_def number_of_two_digits [OF assms])

lemma day_token_two_digits:
  assumes "digit_value c1 = Some a1" "digit_value c2 = Some a2"
  shows "day_token [c1, c2]
           = (if 1 \<le> 10 * a1 + a2 \<and> 10 * a1 + a2 \<le> 31 then Some (10 * a1 + a2) else None)"
proof -
  have "(case [c1, c2] of [CHR '' '', c] \<Rightarrow> [c] | _ \<Rightarrow> [c1, c2]) = [c1, c2]"
    using digit_value_cases [OF assms(1)] by auto
  then show ?thesis
    unfolding day_token_def by (simp add: number_of_two_digits [OF assms])
qed

lemma make_datetime_no_month:
  assumes "\<not> (1 \<le> m \<and> m \<le> 12)"
  shows "make_datetime y m d = None"
  using assms by (auto simp add: make_datetime_def)

lemma make_datetime_no_day:
  assumes "1 \<le> m" "m \<le> 12" "\<not> (1 \<le> d \<and> d \<le> 31)"
  shows "make_datetime y m d = None"
  using assms days_in_month_le_31 [OF assms(1,2), of y] by (auto simp add: make_datetime_def)

lemma strptime_reads_yyyy_mm_dd:
  assumes "digit_value y1 = Some a1" "digit_value y2 = Some a2"
    and "digit_value y3 = Some a3" "digit_value y4 = Some a4"
    and "digit_value m1 = Some b1" "digit_value m2 = Some b2"
    and "digit_value d1 = Some c1" "digit_value d2 = Some c2"
  shows "strptime_ymd [y1, y2, y3, y4, CHR ''-'', m1, m2, CHR ''-'', d1, d2]
           = make_datetime (1000 * a1 + 100 * a2 + 10 * a3 + a4) (10 * b1 + b2) (10 * c1 + c2)"
proof -
  have m: "m1 \<noteq> CHR ''-''" "m2 \<noteq> CHR ''-''"
    using assms(5,6) by (simp_all add: digit_value_range)
  let ?y = "1000 * a1 + 100 * a2 + 10 * a3 + a4"
  let ?m = "10 * b1 + b2"
  let ?d = "10 * c1 + c2"
  have s: "strptime_ymd [y1, y2, y3, y4, CHR ''-'', m1, m2, CHR ''-'', d1, d2]
             = (case (month_token [m1, m2], day_token [d1, d2]) of
                  (Some m, Some d) \<Rightarrow> make_datetime ?y m d
                | _ \<Rightarrow> None)"
    using m by (simp add: strptime_ymd_def number_of_four_digits [OF assms(1-4)])
  show ?thesis
  proof (cases "1 \<le> ?m \<and> ?m \<le> 12")
    case False
    then show ?thesis
      unfolding s
      by (auto simp add: month_token_two_digits [OF assms(5,6)] make_datetime_no_month
          split: option.split)
  next
    case mt: True
    show ?thesis
    proof (cases "1 \<le> ?d \<and> ?d \<le> 31")
      case False
      with mt show ?thesis
        unfolding s
        by (auto simp add: month_token_two_digits [OF assms(5,6)]
            day_token_two_digits [OF assms(7,8)] make_datetime_no_day)
    next
      case True
      with mt show ?thesis
        unfolding s
        by (simp add: month_token_two_digits [OF assms(5,6)]
            day_token_two_digits [OF assms(7,8)])
    qed
  qed
qed

text \<open>
  C4. For a farm configuration with a crop type that is not blank and a planting-date string
  \<open>pd\<close>, and every current date-time. The planting date \<open>d\<close> is May 15 of the current
  year if \<open>pd\<close> contains \<open>yala\<close> in any casing, whatever else \<open>pd\<close> contains; else
  November 15 of the current year if it contains \<open>maha\<close>; else the date that \<open>strptime\<close>
  reads from the stripped string in the format \<open>%Y-%m-%d\<close>. From this date the forecaster
  computes its result: never the "unrecognized format" result, but the "No growth data"
  result for a crop without table entry, the error of a harvest date beyond the year 9999,
  and else the forecast, whose planting date is \<open>d\<close> and whose harvest date is \<open>d\<close> plus
  the growth period of the crop's first variety. A string without season word that is not
  blank and that \<open>strptime\<close> rejects gives, as a value, the "Planting date not available or
  in unrecognized format" result; a blank string gives the "Planting date not specified"
  result. \<open>strptime\<close> reads ten characters \<open>YYYY-MM-DD\<close> as the date of these numbers.
\<close>

theorem planting_date_resolution:
  assumes "1 \<le> year now" and "year now \<le> 9999"
    and "plantingDate cfg = Some pd"
    and "strip (get_or (cropType cfg) '''') = crop" and "crop \<noteq> []"
    and "lookup_crop crop = (crop_name, crop_data)"
  shows
    "((contains (lower pd) ''yala''
         \<and> d = \<lparr>year = year now, month = 5, day = 15, hour = 0, minute = 0, second = 0,
                 microsecond = 0\<rparr>
       \<or> \<not> contains (lower pd) ''yala'' \<and> contains (lower pd) ''maha''
         \<and> d = \<lparr>year = year now, month = 11, day = 15, hour = 0, minute = 0, second = 0,
                 microsecond = 0\<rparr>
       \<or> \<not> contains (lower pd) ''yala'' \<and> \<not> contains (lower pd) ''maha''
         \<and> strptime_ymd (strip pd) = Some d) \<longrightarrow>
        forecast_harvest cfg now
          \<noteq> Inr [(''status'', PStr ''Planting date not available or in unrecognized format'')]
        \<and> (crop_data = [] \<longrightarrow>
             forecast_harvest cfg now
               = Inr [(''status'', PStr (''No growth data available for '' @ crop_name))])
        \<and> (crop_data = (n, g) # rest
           \<and> growth_period = (case growth_days g of
                                 Some days \<Rightarrow> days
                               | None \<Rightarrow> (case growth_years g of
                                            Some years \<Rightarrow> years * 365
                                          | None \<Rightarrow> 120))
           \<and> add_days d growth_period = Inl e \<longrightarrow>
             forecast_harvest cfg now = Inl e)
        \<and> (crop_data = (n, g) # rest
           \<and> growth_period = (case growth_days g of
                                 Some days \<Rightarrow> days
                               | None \<Rightarrow> (case growth_years g of
                                            Some years \<Rightarrow> years * 365
                                          | None \<Rightarrow> 120))
           \<and> add_days d growth_period = Inr harvest_date \<longrightarrow>
             forecast_harvest cfg now
               = Inr [(''crop_type'', PStr crop_name),
                      (''planting_date'', PStr (strftime_ymd d)),
                      (''expected_harvest_date'', PStr (strftime_ymd harvest_date)),
                      (''days_to_harvest'', PNum (of_int (diff_days harvest_date now))),
                      (''growth_stage_percentage'',
                         PNum (round_to
                                 (min 100 (max 0 ((of_int (diff_days now d)
                                                   / of_int growth_period) * 100))) 1)),
                      (''growth_stage_name'',
                         PStr (get_growth_stage_name
                                 (min 100 (max 0 ((of_int (diff_days now d)
                                                   / of_int growth_period) * 100))))),
                      (''harvest_season'', PStr (get_harvest_season harvest_date)),
                      (''harvest_status'',
                         PStr (if diff_days harvest_date now \<le> 0 then ''Ready''
                               else if diff_days harvest_date now \<le> 30 then ''Growing''
                               else ''Early stage''))]))
     \<and> (\<not> contains (lower pd) ''yala'' \<and> \<not> contains (lower pd) ''maha''
        \<and> strip pd \<noteq> [] \<and> strptime_ymd (strip pd) = None \<longrightarrow>
        forecast_harvest cfg now
          = Inr [(''status'',
                  PStr ''Planting date not available or in unrecognized format'')])
     \<and> (strip pd = [] \<longrightarrow>
        forecast_harvest cfg now
          = Inr [(''status'', PStr ''Planting date not specified''),
                 (''message'',
                    PStr (''Please set your planting date in the farm configuration settings. ''
                          @ ''Use YYYY-MM-DD format or '' @ [CHR 0x22] @ ''Yala'' @ [CHR 0x22]
                          @ ''/'' @ [CHR 0x22] @ ''Maha'' @ [CHR 0x22] @ '' season'')),
                 (''required_fields'', PList [PStr ''plantingDate''])])
     \<and> (digit_value y1 = Some a1 \<and> digit_value y2 = Some a2 \<and> digit_value y3 = Some a3
        \<and> digit_value y4 = Some a4 \<and> digit_value m1 = Some b1 \<and> digit_value m2 = Some b2
        \<and> digit_value d1 = Some c1 \<and> digit_value d2 = Some c2 \<longrightarrow>
        strptime_ymd [y1, y2, y3, y4, CHR ''-'', m1, m2, CHR ''-'', d1, d2]
          = make_datetime (1000 * a1 + 100 * a2 + 10 * a3 + a4) (10 * b1 + b2)
              (10 * c1 + c2))"
proof -
  have p: "strip (get_or (plantingDate cfg) []) = strip pd"
    using assms(3) by (simp add: get_or_def)
  have c: "strip (get_or (cropType cfg) []) \<noteq> []"
    using assms(4,5) by simp
  have l: "lookup_crop (strip (get_or (cropType cfg) [])) = (crop_name, crop_data)"
    using assms(4,6) by simp
  have r: "resolve_planting_date (strip (get_or (plantingDate cfg) [])) (year now) = Some d"
    if "contains (lower pd) ''yala''
         \<and> d = \<lparr>year = year now, month = 5, day = 15, hour = 0, minute = 0, second = 0,
                 microsecond = 0\<rparr>
       \<or> \<not> contains (lower pd) ''yala'' \<and> contains (lower pd) ''maha''
         \<and> d = \<lparr>year = year now, month = 11, day = 15, hour = 0, minute = 0, second = 0,
                 microsecond = 0\<rparr>
       \<or> \<not> contains (lower pd) ''yala'' \<and> \<not> contains (lower pd) ''maha''
         \<and> strptime_ymd (strip pd) = Some d"
    using that assms(1,2) unfolding p
    by (auto simp add: resolve_planting_date_def season_words_strip make_datetime_season)
  have first: "forecast_harvest cfg now
          \<noteq> Inr [(''status'', PStr ''Planting date not available or in unrecognized format'')]
        \<and> (crop_data = [] \<longrightarrow>
             forecast_harvest cfg now
               = Inr [(''status'', PStr (''No growth data available for '' @ crop_name))])
        \<and> (crop_data = (n, g) # rest
           \<and> growth_period = (case growth_days g of
                                 Some days \<Rightarrow> days
                               | None \<Rightarrow> (case growth_years g of
                                            Some years \<Rightarrow> years * 365
                                          | None \<Rightarrow> 120))
           \<and> add_days d growth_period = Inl e \<longrightarrow>
             forecast_harvest cfg now = Inl e)
        \<and> (crop_data = (n, g) # rest
           \<and> growth_period = (case growth_days g of
                                 Some days \<Rightarrow> days
                               | None \<Rightarrow> (case growth_years g of
                                            Some years \<Rightarrow> years * 365
                                          | None \<Rightarrow> 120))
           \<and> add_days d growth_period = Inr harvest_date \<longrightarrow>
             forecast_harvest cfg now
               = Inr [(''crop_type'', PStr crop_name),
                      (''planting_date'', PStr (strftime_ymd d)),
                      (''expected_harvest_date'', PStr (strftime_ymd harvest_date)),
                      (''days_to_harvest'', PNum (of_int (diff_days harvest_date now))),
                      (''growth_stage_percentage'',
                         PNum (round_to
                                 (min 100 (max 0 ((of_int (diff_days now d)
                                                   / of_int growth_period) * 100))) 1)),
                      (''growth_stage_name'',
                         PStr (get_growth_stage_name
                                 (min 100 (max 0 ((of_int (diff_days now d)
                                                   / of_int growth_period) * 100))))),
                      (''harvest_season'', PStr (get_harvest_season harvest_date)),
                      (''harvest_status'',
                         PStr (if diff_days harvest_date now \<le> 0 then ''Ready''
                               else if diff_days harvest_date now \<le> 30 then ''Growing''
                               else ''Early stage''))])"
    if res: "resolve_planting_date (strip (get_or (plantingDate cfg) [])) (year now) = Some d"
  proof (intro conjI impI)
    show "forecast_harvest cfg now
          \<noteq> Inr [(''status'', PStr ''Planting date not available or in unrecognized format'')]"
      using res by (rule forecast_harvest_not_unparseable)
  next
    assume "crop_data = []"
    with l have "lookup_crop (strip (get_or (cropType cfg) [])) = (crop_name, [])" by simp
    with refl c res
    show "forecast_harvest cfg now
               = Inr [(''status'', PStr (''No growth data available for '' @ crop_name))]"
      by (rule forecast_harvest_no_growth_data)
  next
    assume a: "crop_data = (n, g) # rest
           \<and> growth_period = (case growth_days g of
                                 Some days \<Rightarrow> days
                               | None \<Rightarrow> (case growth_years g of
                                            Some years \<Rightarrow> years * 365
                                          | None \<Rightarrow> 120))
           \<and> add_days d growth_period = Inl e"
    with l have l': "lookup_crop (strip (get_or (cropType cfg) [])) = (crop_name, (n, g) # rest)"
      by simp
    from a have gp: "growth_period = (case growth_days g of
                                 Some days \<Rightarrow> days
                               | None \<Rightarrow> (case growth_years g of
                                            Some years \<Rightarrow> years * 365
                                          | None \<Rightarrow> 120))" by blast
    from a have "add_days d growth_period = Inl e" by blast
    then have "add_days d (case growth_days g of
                       Some days \<Rightarrow> days
                     | None \<Rightarrow> (case growth_years g of
                                  Some years \<Rightarrow> years * 365
                                | None \<Rightarrow> 120)) = Inl e" unfolding gp .
    with refl c res l' show "forecast_harvest cfg now = Inl e"
      by (rule forecast_harvest_date_out_of_range)
  next
    assume a: "crop_data = (n, g) # rest
           \<and> growth_period = (case growth_days g of
                                 Some days \<Rightarrow> days
                               | None \<Rightarrow> (case growth_years g of
                                            Some years \<Rightarrow> years * 365
                                          | None \<Rightarrow> 120))
           \<and> add_days d growth_period = Inr harvest_date"
    with l have l': "lookup_crop (strip (get_or (cropType cfg) [])) = (crop_name, (n, g) # rest)"
      by simp
    from a have gp: "growth_period = (case growth_days g of
                                 Some days \<Rightarrow> days
                               | None \<Rightarrow> (case growth_years g of
                                            Some years \<Rightarrow> years * 365
                                          | None \<Rightarrow> 120))" by blast
    from a have "add_days d growth_period = Inr harvest_date" by blast
    then have "add_days d (case growth_days g of
                       Some days \<Rightarrow> days
                     | None \<Rightarrow> (case growth_years g of
                                  Some years \<Rightarrow> years * 365
                                | None \<Rightarrow> 120)) = Inr harvest_date" unfolding gp .
    from forecast_harvest_resolved [OF refl c res l' this, folded gp]
    show "forecast_harvest cfg now
               = Inr [(''crop_type'', PStr crop_name),
                      (''planting_date'', PStr (strftime_ymd d)),
                      (''expected_harvest_date'', PStr (strftime_ymd harvest_date)),
                      (''days_to_harvest'', PNum (of_int (diff_days harvest_date now))),
                      (''growth_stage_percentage'',
                         PNum (round_to
                                 (min 100 (max 0 ((of_int (diff_days now d)
                                                   / of_int growth_period) * 100))) 1)),
                      (''growth_stage_name'',
                         PStr (get_growth_stage_name
                                 (min 100 (max 0 ((of_int (diff_days now d)
                                                   / of_int growth_period) * 100))))),
                      (''harvest_season'', PStr (get_harvest_season harvest_date)),
                      (''harvest_status'',
                         PStr (if diff_days harvest_date now \<le> 0 then ''Ready''
                               else if diff_days harvest_date now \<le> 30 then ''Growing''
                               else ''Early stage''))]" .
  qed
  have second: "forecast_harvest cfg now
          = Inr [(''status'',
                  PStr ''Planting date not available or in unrecognized format'')]"
    if a: "\<not> contains (lower pd) ''yala'' \<and> \<not> contains (lower pd) ''maha''
        \<and> strip pd \<noteq> [] \<and> strptime_ymd (strip pd) = None"
  proof -
    from a have "resolve_planting_date (strip (get_or (plantingDate cfg) [])) (year now) = None"
      unfolding p by (simp add: resolve_planting_date_def season_words_strip)
    moreover from a have "strip (get_or (plantingDate cfg) []) \<noteq> []" unfolding p by simp
    ultimately show ?thesis using c by (intro forecast_harvest_unparseable)
  qed
  have third: "forecast_harvest cfg now
          = Inr [(''status'', PStr ''Planting date not specified''),
                 (''message'',
                    PStr (''Please set your planting date in the farm configuration settings. ''
                          @ ''Use YYYY-MM-DD format or '' @ [CHR 0x22] @ ''Yala'' @ [CHR 0x22]
                          @ ''/'' @ [CHR 0x22] @ ''Maha'' @ [CHR 0x22] @ '' season'')),
                 (''required_fields'', PList [PStr ''plantingDate''])]"
    if "strip pd = []"
    using c that unfolding p [symmetric] by (rule forecast_harvest_blank_planting_date)
  have fourth: "strptime_ymd [y1, y2, y3, y4, CHR ''-'', m1, m2, CHR ''-'', d1, d2]
          = make_datetime (1000 * a1 + 100 * a2 + 10 * a3 + a4) (10 * b1 + b2)
              (10 * c1 + c2)"
    if "digit_value y1 = Some a1 \<and> digit_value y2 = Some a2 \<and> digit_value y3 = Some a3
        \<and> digit_value y4 = Some a4 \<and> digit_value m1 = Some b1 \<and> digit_value m2 = Some b2
        \<and> digit_value d1 = Some c1 \<and> digit_value d2 = Some c2"
    using that by (intro strptime_reads_yyyy_mm_dd) simp_all
  from r first second third fourth show ?thesis by blast
qed

text \<open>Concrete planting-date strings, with the clock at 2026-11-03 10:30.\<close>

lemma season_examples: "contains (lower ''Late YALA 2024-01-01'') ''yala''"
  "\<not> contains (lower ''Maha'') ''yala''" "contains (lower ''Maha'') ''maha''"
  by (simp_all add: lower_def lower_char_def)

lemma no_season_examples:
  "\<not> contains (lower ''15/05/2024'') ''yala''" "\<not> contains (lower ''15/05/2024'') ''maha''"
  "\<not> contains (lower ''2024-05-15'') ''yala''" "\<not> contains (lower ''2024-05-15'') ''maha''"
  "\<not> contains (lower ''9999-12-01'') ''yala''" "\<not> contains (lower ''9999-12-01'') ''maha''"
  by (simp_all add: lower_def lower_char_def)

lemma strip_date_examples:
  "strip ''15/05/2024'' = ''15/05/2024''" "strip ''2024-05-15'' = ''2024-05-15''"
  "strip ''9999-12-01'' = ''9999-12-01''" "strip ''   '' = []" "strip ''Rice'' = ''Rice''"
  "strip ''Mango'' = ''Mango''"
  by (simp_all add: strip_def isspace_def)

lemma strptime_rejects_slashes: "strptime_ymd ''15/05/2024'' = None"
  by (simp add: strptime_ymd_def number_of_digits_def digit_value_def digits_value_def get_or_def)

lemma strptime_reads_iso_date:
  "strptime_ymd ''2024-05-15''
     = Some \<lparr>year = 2024, month = 5, day = 15, hour = 0, minute = 0, second = 0,
              microsecond = 0\<rparr>"
  "strptime_ymd ''9999-12-01''
     = Some \<lparr>year = 9999, month = 12, day = 1, hour = 0, minute = 0, second = 0,
              microsecond = 0\<rparr>"
  by (simp_all add: strptime_ymd_def number_of_digits_def digit_value_def digits_value_def
      get_or_def month_token_def day_token_def make_datetime_def days_in_month_def
      DAYS_IN_MONTH_def)

text \<open>
  \<open>strptime\<close> also reads a month and a day of one digit, and a day of one digit after a
  blank; it rejects text after the day.
\<close>

lemma strptime_reads_short_dates:
  "strptime_ymd ''2024-5-1''
     = Some \<lparr>year = 2024, month = 5, day = 1, hour = 0, minute = 0, second = 0,
              microsecond = 0\<rparr>"
  "strptime_ymd ''2026-7- 5''
     = Some \<lparr>year = 2026, month = 7, day = 5, hour = 0, minute = 0, second = 0,
              microsecond = 0\<rparr>"
  "strptime_ymd ''2024-05-15x'' = None"
  "strptime_ymd ''2023-02-29'' = None"
  by (simp_all add: strptime_ymd_def number_of_digits_def digit_value_def digits_value_def
      get_or_def month_token_def day_token_def make_datetime_def days_in_month_def
      DAYS_IN_MONTH_def is_leap_def)

lemma lookup_crop_Mango: "lookup_crop ''Mango'' = (''Mango'', [])"
  by (simp add: lookup_crop_def crop_varieties_def get_or_def find_ci_def lower_def
      lower_char_def)

text \<open>
  C4, the claim as it was written, fails at the planting date \<open>2024-5-1\<close>, which is not of
  the form \<open>YYYY-MM-DD\<close>: for the crop Rice, with the clock at 2026-11-03 10:30, the
  forecaster does not return the "unrecognized format" result but the forecast from the
  planting date 2024-05-01.
\<close>

theorem forecast_harvest_reads_short_date:
  "forecast_harvest
     \<lparr>location = None, climateZone = None, cropType = Some ''Rice'', seedVariety = None,
      plantingDate = Some ''2024-5-1'', fieldSize = None, field_size_acres = None\<rparr>
     \<lparr>year = 2026, month = 11, day = 3, hour = 10, minute = 30, second = 0, microsecond = 0\<rparr>
   = Inr [(''crop_type'', PStr ''Rice''),
      (''planting_date'', PStr ''2024-05-01''),
      (''expected_harvest_date'', PStr ''2024-08-14''),
      (''days_to_harvest'', PNum (- 812)),
      (''growth_stage_percentage'', PNum 100),
      (''growth_stage_name'', PStr ''Harvest Ready''),
      (''harvest_season'', PStr ''Maha Harvest Season''),
      (''harvest_status'', PStr ''Ready'')]"
  by code_simp

text \<open>
  C4 for the crop Rice with the clock at 2026-11-03 10:30, at the planting dates
  \<open>Late YALA 2024-01-01\<close>, \<open>Maha\<close>, \<open>2024-05-15\<close>, \<open>15/05/2024\<close>, \<open>9999-12-01\<close> and a
  blank string; for the crop Mango, which the table does not have; and \<open>strptime\<close> at
  \<open>2024-02-29\<close>.
\<close>

theorem planting_date_resolution_witness:
  "forecast_harvest
     \<lparr>location = None, climateZone = None, cropType = Some ''Rice'', seedVariety = None,
      plantingDate = Some ''Late YALA 2024-01-01'', fieldSize = None,
      field_size_acres = None\<rparr>
     \<lparr>year = 2026, month = 11, day = 3, hour = 10, minute = 30, second = 0, microsecond = 0\<rparr>
     = Inr [(''crop_type'', PStr ''Rice''),
        (''planting_date'', PStr ''2026-05-15''),
        (''expected_harvest_date'', PStr ''2026-08-28''),
        (''days_to_harvest'', PNum (- 68)),
        (''growth_stage_percentage'', PNum 100),
        (''growth_stage_name'', PStr ''Harvest Ready''),
        (''harvest_season'', PStr ''Maha Harvest Season''),
        (''harvest_status'', PStr ''Ready'')]
   \<and> forecast_harvest
     \<lparr>location = None, climateZone = None, cropType = Some ''Rice'', seedVariety = None,
      plantingDate = Some ''Maha'', fieldSize = None, field_size_acres = None\<rparr>
     \<lparr>year = 2026, month = 11, day = 3, hour = 10, minute = 30, second = 0, microsecond = 0\<rparr>
     = Inr [(''crop_type'', PStr ''Rice''),
        (''planting_date'', PStr ''2026-11-15''),
        (''expected_harvest_date'', PStr ''2027-02-28''),
        (''days_to_harvest'', PNum 116),
        (''growth_stage_percentage'', PNum 0),
        (''growth_stage_name'', PStr ''Seedling Stage''),
        (''harvest_season'', PStr ''Off-season Harvest''),
        (''harvest_status'', PStr ''Early stage'')]
   \<and> forecast_harvest
     \<lparr>location = None, climateZone = None, cropType = Some ''Rice'', seedVariety = None,
      plantingDate = Some ''2024-05-15'', fieldSize = None, field_size_acres = None\<rparr>
     \<lparr>year = 2026, month = 11, day = 3, hour = 10, minute = 30, second = 0, microsecond = 0\<rparr>
     = Inr [(''crop_type'', PStr ''Rice''),
        (''planting_date'', PStr ''2024-05-15''),
        (''expected_harvest_date'', PStr ''2024-08-28''),
        (''days_to_harvest'', PNum (- 798)),
        (''growth_stage_percentage'', PNum 100),
        (''growth_stage_name'', PStr ''Harvest Ready''),
        (''harvest_season'', PStr ''Maha Harvest Season''),
        (''harvest_status'', PStr ''Ready'')]
   \<and> forecast_harvest
     \<lparr>location = None, climateZone = None, cropType = Some ''Rice'', seedVariety = None,
      plantingDate = Some ''Late YALA 2024-01-01'', fieldSize = None,
      field_size_acres = None\<rparr>
     \<lparr>year = 2026, month = 11, day = 3, hour = 10, minute = 30, second = 0, microsecond = 0\<rparr>
     \<noteq> Inr [(''status'', PStr ''Planting date not available or in unrecognized format'')]
   \<and> forecast_harvest
     \<lparr>location = None, climateZone = None, cropType = Some ''Mango'', seedVariety = None,
      plantingDate = Some ''Late YALA 2024-01-01'', fieldSize = None,
      field_size_acres = None\<rparr>
     \<lparr>year = 2026, month = 11, day = 3, hour = 10, minute = 30, second = 0, microsecond = 0\<rparr>
     = Inr [(''status'', PStr ''No growth data available for Mango'')]
   \<and> forecast_harvest
     \<lparr>location = None, climateZone = None, cropType = Some ''Rice'', seedVariety = None,
      plantingDate = Some ''9999-12-01'', fieldSize = None, field_size_acres = None\<rparr>
     \<lparr>year = 2026, month = 11, day = 3, hour = 10, minute = 30, second = 0, microsecond = 0\<rparr>
     = Inl OverflowError
   \<and> forecast_harvest
     \<lparr>location = None, climateZone = None, cropType = Some ''Rice'', seedVariety = None,
      plantingDate = Some ''15/05/2024'', fieldSize = None, field_size_acres = None\<rparr>
     \<lparr>year = 2026, month = 11, day = 3, hour = 10, minute = 30, second = 0, microsecond = 0\<rparr>
     = Inr [(''status'', PStr ''Planting date not available or in unrecognized format'')]
   \<and> forecast_harvest
     \<lparr>location = None, climateZone = None, cropType = Some ''Rice'', seedVariety = None,
      plantingDate = Some ''   '', fieldSize = None, field_size_acres = None\<rparr>
     \<lparr>year = 2026, month = 11, day = 3, hour = 10, minute = 30, second = 0, microsecond = 0\<rparr>
     = Inr [(''status'', PStr ''Planting date not specified''),
            (''message'',
               PStr (''Please set your planting date in the farm configuration settings. ''
                     @ ''Use YYYY-MM-DD format or '' @ [CHR 0x22] @ ''Yala'' @ [CHR 0x22]
                     @ ''/'' @ [CHR 0x22] @ ''Maha'' @ [CHR 0x22] @ '' season'')),
            (''required_fields'', PList [PStr ''plantingDate''])]
   \<and> strptime_ymd ''2024-02-29''
     = Some \<lparr>year = 2024, month = 2, day = 29, hour = 0, minute = 0, second = 0,
              microsecond = 0\<rparr>"
proof -
  let ?now = "\<lparr>year = 2026, month = 11, day = 3, hour = 10, minute = 30, second = 0,
               microsecond = 0\<rparr>"
  let ?may = "\<lparr>year = 2026, month = 5, day = 15, hour = 0, minute = 0, second = 0,
               microsecond = 0\<rparr>"
  let ?nov = "\<lparr>year = 2026, month = 11, day = 15, hour = 0, minute = 0, second = 0,
               microsecond = 0\<rparr>"
  let ?d24 = "\<lparr>year = 2024, month = 5, day = 15, hour = 0, minute = 0, second = 0,
               microsecond = 0\<rparr>"
  let ?d99 = "\<lparr>year = 9999, month = 12, day = 1, hour = 0, minute = 0, second = 0,
               microsecond = 0\<rparr>"
  let ?Y = "\<lparr>location = None, climateZone = None, cropType = Some ''Rice'',
      seedVariety = None, plantingDate = Some ''Late YALA 2024-01-01'', fieldSize = None,
      field_size_acres = None\<rparr>"
  let ?M = "\<lparr>location = None, climateZone = None, cropType = Some ''Rice'',
      seedVariety = None, plantingDate = Some ''Maha'', fieldSize = None,
      field_size_acres = None\<rparr>"
  let ?D = "\<lparr>location = None, climateZone = None, cropType = Some ''Rice'',
      seedVariety = None, plantingDate = Some ''2024-05-15'', fieldSize = None,
      field_size_acres = None\<rparr>"
  let ?G = "\<lparr>location = None, climateZone = None, cropType = Some ''Mango'',
      seedVariety = None, plantingDate = Some ''Late YALA 2024-01-01'', fieldSize = None,
      field_size_acres = None\<rparr>"
  let ?O = "\<lparr>location = None, climateZone = None, cropType = Some ''Rice'',
      seedVariety = None, plantingDate = Some ''9999-12-01'', fieldSize = None,
      field_size_acres = None\<rparr>"
  let ?B = "\<lparr>location = None, climateZone = None, cropType = Some ''Rice'',
      seedVariety = None, plantingDate = Some ''15/05/2024'', fieldSize = None,
      field_size_acres = None\<rparr>"
  let ?E = "\<lparr>location = None, climateZone = None, cropType = Some ''Rice'',
      seedVariety = None, plantingDate = Some ''   '', fieldSize = None,
      field_size_acres = None\<rparr>"
  let ?rice = "snd (crop_varieties ! 0)"
  have y: "1 \<le> year ?now" "year ?now \<le> 9999" by simp_all
  have ne: "''Rice'' \<noteq> []" "''Mango'' \<noteq> []" by simp_all
  have rice: "?rice = (fst (hd ?rice), snd (hd ?rice)) # tl ?rice"
    by (simp add: crop_varieties_def)
  have gp: "(105 :: int) = (case growth_days (snd (hd ?rice)) of
                              Some days \<Rightarrow> days
                            | None \<Rightarrow> (case growth_years (snd (hd ?rice)) of
                                         Some years \<Rightarrow> years * 365
                                       | None \<Rightarrow> 120))"
    by (simp add: crop_varieties_def no_variety_def)
  have cY: "strip (get_or (cropType ?Y) '''') = ''Rice''"
    and cM: "strip (get_or (cropType ?M) '''') = ''Rice''"
    and cD: "strip (get_or (cropType ?D) '''') = ''Rice''"
    and cG: "strip (get_or (cropType ?G) '''') = ''Mango''"
    and cO: "strip (get_or (cropType ?O) '''') = ''Rice''"
    and cB: "strip (get_or (cropType ?B) '''') = ''Rice''"
    and cE: "strip (get_or (cropType ?E) '''') = ''Rice''"
    by (simp_all add: get_or_def strip_date_examples)
  have pY: "plantingDate ?Y = Some ''Late YALA 2024-01-01''"
    and pM: "plantingDate ?M = Some ''Maha''"
    and pD: "plantingDate ?D = Some ''2024-05-15''"
    and pG: "plantingDate ?G = Some ''Late YALA 2024-01-01''"
    and pO: "plantingDate ?O = Some ''9999-12-01''"
    and pB: "plantingDate ?B = Some ''15/05/2024''"
    and pE: "plantingDate ?E = Some ''   ''"
    by simp_all
  note tY = planting_date_resolution [where now = ?now and cfg = ?Y
      and crop_data = ?rice and d = ?may and n = "fst (hd ?rice)" and g = "snd (hd ?rice)"
      and rest = "tl ?rice" and growth_period = 105
      and harvest_date = "\<lparr>year = 2026, month = 8, day = 28, hour = 0, minute = 0,
                             second = 0, microsecond = 0\<rparr>"
      and ?y1.0 = "CHR ''2''" and ?y2.0 = "CHR ''0''" and ?y3.0 = "CHR ''2''"
      and ?y4.0 = "CHR ''4''" and ?m1.0 = "CHR ''0''" and ?m2.0 = "CHR ''2''"
      and ?d1.0 = "CHR ''2''" and ?d2.0 = "CHR ''9''"
      and ?a1.0 = 2 and ?a2.0 = 0 and ?a3.0 = 2 and ?a4.0 = 4 and ?b1.0 = 0 and ?b2.0 = 2
      and ?c1.0 = 2 and ?c2.0 = 9,
      OF y pY cY ne(1) lookup_crop_Rice]
  note tM = planting_date_resolution [where now = ?now and cfg = ?M
      and crop_data = ?rice and d = ?nov and n = "fst (hd ?rice)" and g = "snd (hd ?rice)"
      and rest = "tl ?rice" and growth_period = 105
      and harvest_date = "\<lparr>year = 2027, month = 2, day = 28, hour = 0, minute = 0,
                             second = 0, microsecond = 0\<rparr>",
      OF y pM cM ne(1) lookup_crop_Rice]
  note tD = planting_date_resolution [where now = ?now and cfg = ?D
      and crop_data = ?rice and d = ?d24 and n = "fst (hd ?rice)" and g = "snd (hd ?rice)"
      and rest = "tl ?rice" and growth_period = 105
      and harvest_date = "\<lparr>year = 2024, month = 8, day = 28, hour = 0, minute = 0,
                             second = 0, microsecond = 0\<rparr>",
      OF y pD cD ne(1) lookup_crop_Rice]
  note tG = planting_date_resolution [where now = ?now and cfg = ?G and d = ?may,
      OF y pG cG ne(2) lookup_crop_Mango]
  note tO = planting_date_resolution [where now = ?now and cfg = ?O
      and crop_data = ?rice and d = ?d99 and n = "fst (hd ?rice)" and g = "snd (hd ?rice)"
      and rest = "tl ?rice" and growth_period = 105 and e = OverflowError,
      OF y pO cO ne(1) lookup_crop_Rice]
  note tB = planting_date_resolution [where now = ?now and cfg = ?B,
      OF y pB cB ne(1) lookup_crop_Rice]
  note tE = planting_date_resolution [where now = ?now and cfg = ?E,
      OF y pE cE ne(1) lookup_crop_Rice]
  have c1: "forecast_harvest ?Y ?now
     = Inr [(''crop_type'', PStr ''Rice''),
        (''planting_date'', PStr ''2026-05-15''),
        (''expected_harvest_date'', PStr ''2026-08-28''),
        (''days_to_harvest'', PNum (- 68)),
        (''growth_stage_percentage'', PNum 100),
        (''growth_stage_name'', PStr ''Harvest Ready''),
        (''harvest_season'', PStr ''Maha Harvest Season''),
        (''harvest_status'', PStr ''Ready'')]"
    apply (rule trans [OF tY [THEN conjunct1, THEN mp, THEN conjunct2, THEN conjunct2,
            THEN conjunct2, THEN mp]])
      apply (simp add: season_examples)
     apply (intro conjI)
       apply (rule rice)
      apply (rule gp)
     apply code_simp
    apply code_simp
    done
  have c2: "forecast_harvest ?M ?now
     = Inr [(''crop_type'', PStr ''Rice''),
        (''planting_date'', PStr ''2026-11-15''),
        (''expected_harvest_date'', PStr ''2027-02-28''),
        (''days_to_harvest'', PNum 116),
        (''growth_stage_percentage'', PNum 0),
        (''growth_stage_name'', PStr ''Seedling Stage''),
        (''harvest_season'', PStr ''Off-season Harvest''),
        (''harvest_status'', PStr ''Early stage'')]"
    apply (rule trans [OF tM [THEN conjunct1, THEN mp, THEN conjunct2, THEN conjunct2,
            THEN conjunct2, THEN mp]])
      apply (simp add: season_examples)
     apply (intro conjI)
       apply (rule rice)
      apply (rule gp)
     apply code_simp
    apply code_simp
    done
  have c3: "forecast_harvest ?D ?now
     = Inr [(''crop_type'', PStr ''Rice''),
        (''planting_date'', PStr ''2024-05-15''),
        (''expected_harvest_date'', PStr ''2024-08-28''),
        (''days_to_harvest'', PNum (- 798)),
        (''growth_stage_percentage'', PNum 100),
        (''growth_stage_name'', PStr ''Harvest Ready''),
        (''harvest_season'', PStr ''Maha Harvest Season''),
        (''harvest_status'', PStr ''Ready'')]"
    apply (rule trans [OF tD [THEN conjunct1, THEN mp, THEN conjunct2, THEN conjunct2,
            THEN conjunct2, THEN mp]])
      apply (simp add: no_season_examples strip_date_examples strptime_reads_iso_date)
     apply (intro conjI)
       apply (rule rice)
      apply (rule gp)
     apply code_simp
    apply code_simp
    done
  have c4: "forecast_harvest ?Y ?now
     \<noteq> Inr [(''status'', PStr ''Planting date not available or in unrecognized format'')]"
    apply (rule tY [THEN conjunct1, THEN mp, THEN conjunct1])
    apply (simp add: season_examples)
    done
  have c5: "forecast_harvest ?G ?now
     = Inr [(''status'', PStr ''No growth data available for Mango'')]"
    apply (rule trans [OF tG [THEN conjunct1, THEN mp, THEN conjunct2, THEN conjunct1,
            THEN mp]])
      apply (simp add: season_examples)
     apply (rule refl)
    apply simp
    done
  have c6: "forecast_harvest ?O ?now = Inl OverflowError"
    apply (rule tO [THEN conjunct1, THEN mp, THEN conjunct2, THEN conjunct2,
          THEN conjunct1, THEN mp])
     apply (simp add: no_season_examples strip_date_examples strptime_reads_iso_date)
    apply (intro conjI)
      apply (rule rice)
     apply (rule gp)
    apply code_simp
    done
  have c7: "forecast_harvest ?B ?now
     = Inr [(''status'', PStr ''Planting date not available or in unrecognized format'')]"
    apply (rule tB [THEN conjunct2, THEN conjunct1, THEN mp])
    apply (simp add: no_season_examples strip_date_examples strptime_rejects_slashes)
    done
  have c8: "forecast_harvest ?E ?now
     = Inr [(''status'', PStr ''Planting date not specified''),
            (''message'',
               PStr (''Please set your planting date in the farm configuration settings. ''
                     @ ''Use YYYY-MM-DD format or '' @ [CHR 0x22] @ ''Yala'' @ [CHR 0x22]
                     @ ''/'' @ [CHR 0x22] @ ''Maha'' @ [CHR 0x22] @ '' season'')),
            (''required_fields'', PList [PStr ''plantingDate''])]"
    apply (rule tE [THEN conjunct2, THEN conjunct2, THEN conjunct1, THEN mp])
    apply (simp add: strip_date_examples)
    done
  have c9: "strptime_ymd ''2024-02-29''
     = Some \<lparr>year = 2024, month = 2, day = 29, hour = 0, minute = 0, second = 0,
              microsecond = 0\<rparr>"
    apply (rule trans [OF tY [THEN conjunct2, THEN conjunct2, THEN conjunct2, THEN mp]])
     apply (simp add: digit_value_def)
    apply (simp add: make_datetime_def days_in_month_def is_leap_def)
    done
  from c1 c2 c3 c4 c5 c6 c7 c8 c9 show ?thesis by blast
qed

subsection \<open>Empty sensor data\<close>

lemma analyze_sensor_data_empty:
  "analyze_sensor_data []
   = \<lparr>status = Some ''No sensor data available'', average_temperature = None,
      average_humidity = None, average_soil_moisture = None, reading_range = None,
      data_points = None, last_reading = None\<rparr>"
  by (simp add: analyze_sensor_data_def)

lemma lookup_zone_in_table:
  assumes "lookup_zone z = Some (name, zd)"
  shows "(name, zd) \<in> set climate_zones"
proof (cases "map_of climate_zones z")
  case None
  with assms have "find_ci climate_zones z = Some (name, zd)" by (simp add: lookup_zone_def)
  then show ?thesis using find_ci_in_table by blast
next
  case (Some d)
  with assms have "name = z" "zd = d" by (simp_all add: lookup_zone_def)
  with Some show ?thesis using map_of_SomeD by fast
qed

lemma add_days_in_range:
  assumes "1 \<le> toordinal dt + n" "toordinal dt + n \<le> 3652059"
  shows "\<exists>d. add_days dt n = Inr d"
  using assms by (simp add: add_days_def Let_def split: prod.splits)

lemma forecast_loop_returns:
  assumes "\<forall>i \<in> set days. 1 \<le> toordinal now + int i \<and> toordinal now + int i \<le> 3652059"
  shows "\<exists>entries. forecast_loop now noise cz t h days = Inr entries"
  using assms
proof (induction days)
  case Nil
  then show ?case by simp
next
  case (Cons i days)
  then obtain entries where e: "forecast_loop now noise cz t h days = Inr entries" by auto
  from Cons.prems obtain d where d: "add_days now (int i) = Inr d"
    using add_days_in_range [of now "int i"] by auto
  show ?case by (simp add: d e Let_def)
qed

lemma generate_alerts_returns:
  "\<exists>alerts. generate_alerts sa (assess_disease_risk sa' cfg) ma = Inr alerts"
  by (simp add: generate_alerts_def assess_disease_risk_fields get_or_def)

lemma climate_analysis_shape:
  "map_of (analyze_climate_zone cfg sa) ''current_temperature_status'' = None
   \<or> (\<exists>lo hi. map_of (analyze_climate_zone cfg sa) ''optimal_temperature_range''
          = Some (PList [PNum lo, PNum hi]))"
proof (cases "strip (get_or (climateZone cfg) []) = []")
  case True
  then show ?thesis by (simp add: analyze_climate_zone_def)
next
  case False
  show ?thesis
  proof (cases "lookup_zone (strip (get_or (climateZone cfg) []))")
    case None
    with False show ?thesis by (simp add: analyze_climate_zone_def Let_def)
  next
    case (Some p)
    obtain name zd where p: "p = (name, zd)" by (cases p)
    with Some have "(name, zd) \<in> set climate_zones" by (simp add: lookup_zone_in_table)
    then have "\<exists>lo hi. temperature_range zd = [lo, hi]"
      unfolding zone_entries by (auto simp add: climate_zones_def)
    then obtain lo hi where "temperature_range zd = [lo, hi]" by blast
    with False Some p show ?thesis by (simp add: analyze_climate_zone_def Let_def)
  qed
qed

lemma generate_recommendations_returns:
  "\<exists>items. generate_sri_lankan_recommendations cfg sa (analyze_climate_zone cfg sa') ma
            = Inr items"
  using climate_analysis_shape [of cfg sa']
  by (auto simp add: generate_sri_lankan_recommendations_def Let_def get_or_def)

lemma empty_data_disease_risk:
  "assess_disease_risk (analyze_sensor_data []) cfg
   = assess_disease_risk
       ((analyze_sensor_data [])\<lparr>average_temperature := Some 25, average_humidity := Some 70,
          average_soil_moisture := Some 50\<rparr>) cfg"
  "disease_risk_rules (analyze_sensor_data []) cfg = ([], 0)"
  "disease_risk_rules
     ((analyze_sensor_data [])\<lparr>average_temperature := Some 0.0, average_humidity := Some 0.0,
        average_soil_moisture := Some 0.0\<rparr>) cfg
   = ([''Plant stress due to drought conditions'', ''Cold stress risk for tropical crops''], 30)"
  by (simp_all add: assess_disease_risk_def disease_risk_rules_def analyze_sensor_data_empty
      get_or_def Let_def
      split: option.split prod.split sum.split list.split)

lemma empty_data_climate_zone:
  "analyze_climate_zone cfg (analyze_sensor_data [])
   = analyze_climate_zone cfg
       ((analyze_sensor_data [])\<lparr>average_temperature := Some 0, average_humidity := Some 0\<rparr>)"
  by (simp add: analyze_climate_zone_def analyze_sensor_data_empty get_or_def Let_def
      split: option.split prod.split sum.split list.split)

lemma empty_data_predict_yield:
  "predict_yield pyfloat cfg (analyze_sensor_data [])
   = predict_yield pyfloat cfg
       ((analyze_sensor_data [])\<lparr>average_temperature := Some 25,
          average_soil_moisture := Some 50, data_points := Some 1\<rparr>)"
  by (simp add: predict_yield_def analyze_sensor_data_empty get_or_def Let_def
      split: option.split prod.split sum.split list.split)

lemma empty_data_suitability:
  "assess_current_suitability crop_type (analyze_sensor_data [])
   = assess_current_suitability crop_type
       ((analyze_sensor_data [])\<lparr>average_temperature := Some 25, average_humidity := Some 70,
          average_soil_moisture := Some 50\<rparr>)"
  by (simp add: assess_current_suitability_def analyze_sensor_data_empty get_or_def Let_def
      split: option.split prod.split sum.split list.split)

lemma empty_data_crop_specific:
  "analyze_crop_specific cfg (analyze_sensor_data []) now
   = analyze_crop_specific cfg
       ((analyze_sensor_data [])\<lparr>average_temperature := Some 25, average_humidity := Some 70,
          average_soil_moisture := Some 50\<rparr>) now"
  by (simp add: analyze_crop_specific_def Let_def empty_data_suitability [symmetric])

lemma empty_data_recommendations:
  "generate_sri_lankan_recommendations cfg (analyze_sensor_data []) ca ma
   = generate_sri_lankan_recommendations cfg
       ((analyze_sensor_data [])\<lparr>average_temperature := Some 0,
          average_soil_moisture := Some 0\<rparr>) ca ma"
  by (simp add: generate_sri_lankan_recommendations_def analyze_sensor_data_empty get_or_def Let_def
      split: option.split prod.split sum.split list.split)

lemma empty_data_alerts:
  "generate_alerts (analyze_sensor_data []) dr ma
   = generate_alerts ((analyze_sensor_data [])\<lparr>average_temperature := Some 25\<rparr>) dr ma"
  by (simp add: generate_alerts_def analyze_sensor_data_empty get_or_def Let_def
      split: option.split prod.split sum.split list.split)

lemma empty_data_weather:
  "forecast_weather now noise cfg (analyze_sensor_data [])
   = forecast_weather now noise cfg
       ((analyze_sensor_data [])\<lparr>average_temperature := Some 27, average_humidity := Some 75\<rparr>)"
  by (simp add: forecast_weather_def analyze_sensor_data_empty get_or_def Let_def
      split: option.split prod.split sum.split list.split)

lemma forecast_weather_returns:
  assumes "1 \<le> toordinal now" "toordinal now + 6 \<le> 3652059"
  shows "\<exists>result. forecast_weather now noise cfg sa = Inr result"
proof -
  have "\<forall>i \<in> set [0, 1, 2, 3, 4, 5, 6 :: nat].
          1 \<le> toordinal now + int i \<and> toordinal now + int i \<le> 3652059"
    using assms by simp
  from forecast_loop_returns [OF this]
  obtain entries where
    "forecast_loop now noise (get_or (climateZone cfg) [])
       (get_or (average_temperature sa) 27) (get_or (average_humidity sa) 75)
       [0, 1, 2, 3, 4, 5, 6] = Inr entries"
    by blast
  then show ?thesis by (simp add: forecast_weather_def Let_def)
qed

lemma predict_yield_returns:
  assumes "field_size pf cfg = Inr acres"
  shows "\<exists>result. predict_yield pf cfg sa = Inr result"
  using assms by (simp add: predict_yield_def Let_def)

text \<open>
  C7. For the empty list of samples the aggregator returns the dictionary that has the
  key \<open>status\<close>, with the value "No sensor data available", and no other key. Every
  analyzer that takes the aggregate then works with its own defaults, so its result on this
  aggregate is its result on the readings named here: the disease-risk analyzer, the crop
  suitability and the crop-specific analyzer read temperature \<open>25\<close>, humidity \<open>70\<close> and
  soil moisture \<open>50\<close> (no disease rule fires, where the aggregator's \<open>0.0\<close> would fire
  two); the yield predictor reads \<open>25\<close>, \<open>50\<close> and one data point; the climate-zone
  analyzer and the recommendations read \<open>0\<close>; the alerts read \<open>25\<close>; the weather
  forecaster reads \<open>27\<close> and \<open>75\<close>. The analyzers that can raise at all return a
  result here: the recommendations and the alerts on the results of the climate-zone and the
  disease-risk analyzer, the weather forecaster whenever the seven days lie within the
  range of dates, and the yield predictor whenever \<open>float\<close> reads the field size or raises
  what the \<open>try\<close> catches.
\<close>

theorem empty_sensor_data_uses_defaults:
  "analyze_sensor_data []
     = \<lparr>status = Some ''No sensor data available'', average_temperature = None,
        average_humidity = None, average_soil_moisture = None, reading_range = None,
        data_points = None, last_reading = None\<rparr>
   \<and> assess_disease_risk (analyze_sensor_data []) cfg
     = assess_disease_risk
         ((analyze_sensor_data [])\<lparr>average_temperature := Some 25,
            average_humidity := Some 70, average_soil_moisture := Some 50\<rparr>) cfg
   \<and> disease_risk_rules (analyze_sensor_data []) cfg = ([], 0)
   \<and> disease_risk_rules
         ((analyze_sensor_data [])\<lparr>average_temperature := Some 0.0,
            average_humidity := Some 0.0, average_soil_moisture := Some 0.0\<rparr>) cfg
     = ([''Plant stress due to drought conditions'',
         ''Cold stress risk for tropical crops''], 30)
   \<and> analyze_climate_zone cfg (analyze_sensor_data [])
     = analyze_climate_zone cfg
         ((analyze_sensor_data [])\<lparr>average_temperature := Some 0,
            average_humidity := Some 0\<rparr>)
   \<and> predict_yield pyfloat cfg (analyze_sensor_data [])
     = predict_yield pyfloat cfg
         ((analyze_sensor_data [])\<lparr>average_temperature := Some 25,
            average_soil_moisture := Some 50, data_points := Some 1\<rparr>)
   \<and> assess_current_suitability crop_type (analyze_sensor_data [])
     = assess_current_suitability crop_type
         ((analyze_sensor_data [])\<lparr>average_temperature := Some 25,
            average_humidity := Some 70, average_soil_moisture := Some 50\<rparr>)
   \<and> analyze_crop_specific cfg (analyze_sensor_data []) now
     = analyze_crop_specific cfg
         ((analyze_sensor_data [])\<lparr>average_temperature := Some 25,
            average_humidity := Some 70, average_soil_moisture := Some 50\<rparr>) now
   \<and> generate_sri_lankan_recommendations cfg (analyze_sensor_data [])
         (analyze_climate_zone cfg (analyze_sensor_data [])) monsoon_analysis
     = generate_sri_lankan_recommendations cfg
         ((analyze_sensor_data [])\<lparr>average_temperature := Some 0,
            average_soil_moisture := Some 0\<rparr>)
         (analyze_climate_zone cfg (analyze_sensor_data [])) monsoon_analysis
   \<and> (\<exists>items. generate_sri_lankan_recommendations cfg (analyze_sensor_data [])
                  (analyze_climate_zone cfg (analyze_sensor_data [])) monsoon_analysis
                = Inr items)
   \<and> generate_alerts (analyze_sensor_data [])
         (assess_disease_risk (analyze_sensor_data []) cfg) monsoon_analysis
     = generate_alerts ((analyze_sensor_data [])\<lparr>average_temperature := Some 25\<rparr>)
         (assess_disease_risk (analyze_sensor_data []) cfg) monsoon_analysis
   \<and> (\<exists>alerts. generate_alerts (analyze_sensor_data [])
                   (assess_disease_risk (analyze_sensor_data []) cfg) monsoon_analysis
                 = Inr alerts)
   \<and> forecast_weather now noise cfg (analyze_sensor_data [])
     = forecast_weather now noise cfg
         ((analyze_sensor_data [])\<lparr>average_temperature := Some 27,
            average_humidity := Some 75\<rparr>)
   \<and> (1 \<le> toordinal now \<and> toordinal now + 6 \<le> 3652059 \<longrightarrow>
        (\<exists>result. forecast_weather now noise cfg (analyze_sensor_data []) = Inr result))
   \<and> (field_size pyfloat cfg = Inr acres \<longrightarrow>
        (\<exists>result. predict_yield pyfloat cfg (analyze_sensor_data []) = Inr result))"
  by (intro conjI impI analyze_sensor_data_empty empty_data_disease_risk
      empty_data_climate_zone empty_data_predict_yield empty_data_suitability
      empty_data_crop_specific empty_data_recommendations generate_recommendations_returns
      empty_data_alerts generate_alerts_returns empty_data_weather)
     (simp_all add: forecast_weather_returns predict_yield_returns)

text \<open>
  C7 for the configuration Wet Zone, Rice, BG 352, with the clock at 2026-11-03 10:30 and
  random draws that are all \<open>0\<close>.
\<close>

theorem empty_sensor_data_uses_defaults_witness:
  "(1 \<le> toordinal \<lparr>year = 2026, month = 11, day = 3, hour = 10, minute = 30, second = 0,
                     microsecond = 0\<rparr>
    \<and> toordinal \<lparr>year = 2026, month = 11, day = 3, hour = 10, minute = 30, second = 0,
                   microsecond = 0\<rparr> + 6 \<le> 3652059)
   \<and> status (analyze_sensor_data []) = Some ''No sensor data available''
   \<and> disease_risk_rules (analyze_sensor_data [])
       \<lparr>location = None, climateZone = Some ''Wet Zone'', cropType = Some ''Rice'',
        seedVariety = Some ''BG 352'', plantingDate = None, fieldSize = Some (PStr ''2''),
        field_size_acres = None\<rparr> = ([], 0)
   \<and> (\<exists>result. forecast_weather
         \<lparr>year = 2026, month = 11, day = 3, hour = 10, minute = 30, second = 0,
          microsecond = 0\<rparr>
         (\<lambda>i. (0, 0))
         \<lparr>location = None, climateZone = Some ''Wet Zone'', cropType = Some ''Rice'',
          seedVariety = Some ''BG 352'', plantingDate = None, fieldSize = Some (PStr ''2''),
          field_size_acres = None\<rparr>
         (analyze_sensor_data []) = Inr result)
   \<and> (\<exists>result. predict_yield pyfloat_plain
         \<lparr>location = None, climateZone = Some ''Wet Zone'', cropType = Some ''Rice'',
          seedVariety = Some ''BG 352'', plantingDate = None, fieldSize = Some (PStr ''2''),
          field_size_acres = None\<rparr>
         (analyze_sensor_data []) = Inr result)"
proof -
  let ?now = "\<lparr>year = 2026, month = 11, day = 3, hour = 10, minute = 30, second = 0,
               microsecond = 0\<rparr>"
  let ?cfg = "\<lparr>location = None, climateZone = Some ''Wet Zone'', cropType = Some ''Rice'',
        seedVariety = Some ''BG 352'', plantingDate = None, fieldSize = Some (PStr ''2''),
        field_size_acres = None\<rparr>"
  have o: "toordinal ?now = 739923"
    by (simp add: toordinal_def ymd2ord_def days_before_year_def days_before_month_def
        DAYS_BEFORE_MONTH_def is_leap_def)
  note t = empty_sensor_data_uses_defaults
      [of ?cfg pyfloat_plain "''Rice''" ?now "[]" "\<lambda>i. (0, 0)" 2]
  have c1: "status (analyze_sensor_data []) = Some ''No sensor data available''"
    using t [THEN conjunct1] by simp
  have c3: "disease_risk_rules (analyze_sensor_data []) ?cfg = ([], 0)"
    by (rule t [THEN conjunct2, THEN conjunct2, THEN conjunct1])
  have h: "1 \<le> toordinal ?now \<and> toordinal ?now + 6 \<le> 3652059" using o by simp
  have c14: "\<exists>result. forecast_weather ?now (\<lambda>i. (0, 0)) ?cfg (analyze_sensor_data [])
                      = Inr result"
    using t [THEN conjunct2, THEN conjunct2, THEN conjunct2, THEN conjunct2, THEN conjunct2, THEN conjunct2, THEN conjunct2, THEN conjunct2, THEN conjunct2, THEN conjunct2, THEN conjunct2, THEN conjunct2, THEN conjunct2, THEN conjunct1] h by blast
  have f: "field_size pyfloat_plain ?cfg = Inr 2"
    by (simp add: field_size_of_string pyfloat_plain_examples)
  have c15: "\<exists>result. predict_yield pyfloat_plain ?cfg (analyze_sensor_data []) = Inr result"
    using t [THEN conjunct2, THEN conjunct2, THEN conjunct2, THEN conjunct2, THEN conjunct2, THEN conjunct2, THEN conjunct2, THEN conjunct2, THEN conjunct2, THEN conjunct2, THEN conjunct2, THEN conjunct2, THEN conjunct2, THEN conjunct2] f by blast
  from h c1 c3 c14 c15 show ?thesis by blast
qed

end
